theory Spec2Isabelle
  imports Main
begin

section \<open>Values, errors and strings\<close>

text \<open>
  The program is \<^verbatim>\<open>src/section-generator.py\<close>. Its data are Python dictionaries read
  from a JSON document, so a value is a JSON value. Numbers are integers here (the code
  never computes with a catalog number, it only copies it); strings are lists of ASCII
  characters.
\<close>

datatype json =
    JNull
  | JBool bool
  | JInt int
  | JStr string
  | JList "json list"
  | JObj "(string \<times> json) list"

text \<open>The exceptions the code can raise, each with the name Python reports.\<close>

datatype error =
    KeyError string
  | AttributeError string
  | TypeError string
  | OSError string
  | UnicodeDecodeError
  | JSONDecodeError
  | RecursionError
  | ValueError string

text \<open>\<^verbatim>\<open>d.get(k, dflt)\<close> on a dictionary held as an association list.\<close>

definition dict_get :: "(string \<times> json) list \<Rightarrow> string \<Rightarrow> json \<Rightarrow> json" where
  "dict_get d k dflt = (case map_of d k of Some v \<Rightarrow> v | None \<Rightarrow> dflt)"

text \<open>\<^verbatim>\<open>d.get(k, [])\<close> on a key whose value, when present, is a list.\<close>

definition get_list :: "'a list option \<Rightarrow> 'a list" where
  "get_list x = (case x of None \<Rightarrow> [] | Some xs \<Rightarrow> xs)"

text \<open>Truth value of \<^verbatim>\<open>d.get(k)\<close> for such a key: absent (None) and empty are false.\<close>

definition truthy :: "'a list option \<Rightarrow> bool" where
  "truthy x = (case x of None \<Rightarrow> False | Some xs \<Rightarrow> xs \<noteq> [])"

definition ascii_lower :: string where
  "ascii_lower = ''abcdefghijklmnopqrstuvwxyz''"

definition ascii_upper :: string where
  "ascii_upper = ''ABCDEFGHIJKLMNOPQRSTUVWXYZ''"

definition is_cased :: "char \<Rightarrow> bool" where
  "is_cased c = (c \<in> set ascii_lower \<or> c \<in> set ascii_upper)"

definition to_upper :: "char \<Rightarrow> char" where
  "to_upper c = (case map_of (zip ascii_lower ascii_upper) c of Some u \<Rightarrow> u | None \<Rightarrow> c)"

definition to_lower :: "char \<Rightarrow> char" where
  "to_lower c = (case map_of (zip ascii_upper ascii_lower) c of Some l \<Rightarrow> l | None \<Rightarrow> c)"

text \<open>
  \<^verbatim>\<open>str.title()\<close>: a cased character is upper-cased when the character before it is
  not cased (or there is none) and lower-cased otherwise; other characters are kept.
  The cased characters here are the ASCII letters: a string with a letter outside ASCII
  is outside this model, since Python cases such letters too.
\<close>

fun title_from :: "bool \<Rightarrow> string \<Rightarrow> string" where
  "title_from previous_is_cased [] = []"
| "title_from previous_is_cased (c # cs) =
     (if is_cased c
      then (if previous_is_cased then to_lower c else to_upper c) # title_from True cs
      else c # title_from False cs)"

definition title :: "string \<Rightarrow> string" where
  "title s = title_from False s"

text \<open>\<^verbatim>\<open>s.replace('_', ' ')\<close>.\<close>

definition replace_underscores :: "string \<Rightarrow> string" where
  "replace_underscores s = map (\<lambda>c. if c = CHR ''_'' then CHR '' '' else c) s"

section \<open>The analyzer's data\<close>

text \<open>A raw setting specification of the catalog: a dictionary with any keys.\<close>

type_synonym raw_setting = "(string \<times> json) list"

text \<open>
  The dictionary built by \<^verbatim>\<open>_normalize_setting\<close>. The first seven keys are always
  there; \<^verbatim>\<open>options\<close>, the three range keys and \<^verbatim>\<open>validation\<close> only when the code
  adds them. The priority tier of the specification is the key \<^verbatim>\<open>category\<close>.
\<close>

record setting_descriptor =
  s_type :: json
  s_id :: string
  s_label :: json
  s_default :: json
  s_required :: json
  s_info :: json
  s_category :: json
  s_options :: "json option"
  s_range :: "(json \<times> json \<times> json) option"
  s_validation :: "json option"

text \<open>The dictionary \<^verbatim>\<open>organized\<close> of \<^verbatim>\<open>_organize_settings\<close>.\<close>

record organized =
  essential :: "setting_descriptor list"
  recommended :: "setting_descriptor list"
  advanced :: "setting_descriptor list"

text \<open>
  A catalog entry and an analysis report are the same kind of Python dictionary: the
  report of a known type is a copy of the entry with six keys added. Each field is a
  key; \<open>None\<close> means the key is absent. Keys the code never reads are left out.
\<close>

record section_dict =
  description :: "string option"
  essentialSettings :: "raw_setting list option"
  recommendedSettings :: "raw_setting list option"
  advancedSettings :: "raw_setting list option"
  suggestedBlocks :: "json list option"
  commonUseCases :: "json list option"
  intelligent_settings :: "organized option"
  suggested_settings :: "setting_descriptor list option"
  advanced_settings :: "setting_descriptor list option"
  suggested_blocks :: "json list option"
  intelligence_score :: "int option"
  optimization_tips :: "string list option"

text \<open>\<^verbatim>\<open>self.section_types\<close>: type name to catalog entry.\<close>

type_synonym catalog = "string \<rightharpoonup> section_dict"

section \<open>SectionTypeAnalyzer\<close>

text \<open>
  \<^verbatim>\<open>_get_default_for_type\<close>: a lookup in a dictionary keyed by strings. A list or a
  dictionary cannot be hashed, so looking one up raises TypeError; any other value that
  is not one of the eight keys gets the fallback.
\<close>

definition get_default_for_type :: "json \<Rightarrow> error + json" where
  "get_default_for_type setting_type =
     (case setting_type of
        JList _ \<Rightarrow> Inl (TypeError ''unhashable type: list'')
      | JObj _ \<Rightarrow> Inl (TypeError ''unhashable type: dict'')
      | JStr t \<Rightarrow>
          Inr (case map_of
                 [(''text'', JStr ''Default text''),
                  (''textarea'', JStr ''Default description''),
                  (''color'', JStr ''#000000''),
                  (''image_picker'', JNull),
                  (''url'', JStr ''/''),
                  (''checkbox'', JBool False),
                  (''range'', JInt 50),
                  (''select'', JStr '''')] t of
                 Some v \<Rightarrow> v
               | None \<Rightarrow> JStr ''Default value'')
      | _ \<Rightarrow> Inr (JStr ''Default value''))"

text \<open>
  \<^verbatim>\<open>_normalize_setting\<close>. Python evaluates the default argument of \<^verbatim>\<open>get\<close> before
  the call, so \<^verbatim>\<open>setting['id'].replace('_', ' ').title()\<close> runs for every setting,
  with or without a \<^verbatim>\<open>label\<close>: KeyError when \<^verbatim>\<open>id\<close> is absent, AttributeError when
  it is not a string. In the same way \<^verbatim>\<open>_get_default_for_type\<close> runs whether or not
  \<^verbatim>\<open>default\<close> is present. Once \<^verbatim>\<open>id\<close> is known to be present,
  \<^verbatim>\<open>setting.get('id', setting.get('name', 'setting'))\<close> is that value.
\<close>

definition normalize_setting :: "raw_setting \<Rightarrow> error + setting_descriptor" where
  "normalize_setting setting =
     (case map_of setting ''id'' of
        None \<Rightarrow> Inl (KeyError ''id'')
      | Some (JStr i) \<Rightarrow>
          (case get_default_for_type (dict_get setting ''type'' (JStr ''text'')) of
             Inl e \<Rightarrow> Inl e
           | Inr type_default \<Rightarrow>
               Inr \<lparr> s_type = dict_get setting ''type'' (JStr ''text''),
                     s_id = i,
                     s_label = dict_get setting ''label'' (JStr (title (replace_underscores i))),
                     s_default = dict_get setting ''default'' type_default,
                     s_required = dict_get setting ''required'' (JBool False),
                     s_info = dict_get setting ''info'' (JStr ''''),
                     s_category = dict_get setting ''category'' (JStr ''recommended''),
                     s_options =
                       (if map_of setting ''type'' = Some (JStr ''select'')
                           \<and> map_of setting ''options'' \<noteq> None
                        then map_of setting ''options'' else None),
                     s_range =
                       (if map_of setting ''type'' = Some (JStr ''range'')
                        then Some (dict_get setting ''min'' (JInt 0),
                                   dict_get setting ''max'' (JInt 100),
                                   dict_get setting ''unit'' (JStr ''''))
                        else None),
                     s_validation = map_of setting ''validation'' \<rparr>)
      | Some _ \<Rightarrow> Inl (AttributeError ''replace''))"

text \<open>
  One \<^verbatim>\<open>for\<close> loop of \<^verbatim>\<open>_organize_settings\<close>: normalize each setting in order and
  append it; the first exception ends the loop.
\<close>

fun normalize_each :: "raw_setting list \<Rightarrow> error + setting_descriptor list" where
  "normalize_each [] = Inr []"
| "normalize_each (setting # rest) =
     (case normalize_setting setting of
        Inl e \<Rightarrow> Inl e
      | Inr d \<Rightarrow>
          (case normalize_each rest of
             Inl e \<Rightarrow> Inl e
           | Inr ds \<Rightarrow> Inr (d # ds)))"

definition organize_settings :: "section_dict \<Rightarrow> error + organized" where
  "organize_settings section_config =
     (case normalize_each (get_list (essentialSettings section_config)) of
        Inl e \<Rightarrow> Inl e
      | Inr es \<Rightarrow>
          (case normalize_each (get_list (recommendedSettings section_config)) of
             Inl e \<Rightarrow> Inl e
           | Inr rs \<Rightarrow>
               (case normalize_each (get_list (advancedSettings section_config)) of
                  Inl e \<Rightarrow> Inl e
                | Inr as \<Rightarrow>
                    Inr \<lparr> essential = es, recommended = rs, advanced = as \<rparr>)))"

definition calculate_intelligence_score :: "section_dict \<Rightarrow> int" where
  "calculate_intelligence_score section_config =
     (let score0 = 0;
          score1 = (if truthy (essentialSettings section_config) then score0 + 30 else score0);
          score2 = (if truthy (recommendedSettings section_config) then score1 + 25 else score1);
          advanced_count = int (length (get_list (advancedSettings section_config)));
          score3 = (if advanced_count > 0 then score2 + min (advanced_count * 5) 20 else score2);
          score4 = (if truthy (suggestedBlocks section_config) then score3 + 15 else score3);
          score5 = (if truthy (commonUseCases section_config) then score4 + 10 else score4)
      in min score5 100)"

definition get_optimization_tips :: "string \<Rightarrow> string list" where
  "get_optimization_tips section_type =
     (if section_type = ''hero'' then
        [''Use high-quality background images for better visual impact'',
         ''Keep heading text concise and compelling'',
         ''Consider adding a secondary CTA button for better conversion'']
      else if section_type = ''features'' then
        [''Use consistent icon styles across all features'',
         ''Limit features to 3-6 for better readability'',
         ''Add hover effects to increase interactivity'']
      else if section_type = ''testimonials'' then
        [''Include customer photos for authenticity'',
         ''Use varied testimonial lengths for visual interest'',
         ''Consider adding company logos for B2B credibility'']
      else if section_type = ''gallery'' then
        [''Optimize images for web to improve loading speed'',
         ''Use consistent aspect ratios for better grid layout'',
         ''Add alt text for better accessibility'']
      else [])"

text \<open>
  \<^verbatim>\<open>_get_intelligent_config\<close>. \<^verbatim>\<open>self.section_types[section_type].copy()\<close> is a
  new dictionary with the entry's keys. The dictionary passed to \<^verbatim>\<open>update\<close> is built
  first, so the score is computed on the copy before any key is added;
  \<^verbatim>\<open>_organize_settings\<close> may raise and then nothing is returned.
\<close>

definition get_intelligent_config :: "catalog \<Rightarrow> string \<Rightarrow> error + section_dict" where
  "get_intelligent_config section_types section_type =
     (case section_types section_type of
        None \<Rightarrow> Inl (KeyError section_type)
      | Some entry \<Rightarrow>
          (let section_config = entry in
           case organize_settings section_config of
             Inl e \<Rightarrow> Inl e
           | Inr organized_settings \<Rightarrow>
               Inr (section_config
                      \<lparr> intelligent_settings := Some organized_settings,
                        suggested_settings :=
                          Some (essential organized_settings @ recommended organized_settings),
                        advanced_settings := Some (advanced organized_settings),
                        suggested_blocks := Some (get_list (suggestedBlocks section_config)),
                        intelligence_score :=
                          Some (calculate_intelligence_score section_config),
                        optimization_tips := Some (get_optimization_tips section_type) \<rparr>)))"

text \<open>
  \<^verbatim>\<open>_get_generic_config\<close>: a dictionary literal. It has the three raw lists and
  \<^verbatim>\<open>suggestedBlocks\<close>, an \<^verbatim>\<open>intelligent_settings\<close> entry with three empty lists, a
  score and one tip; it has no \<^verbatim>\<open>suggested_settings\<close>, \<^verbatim>\<open>advanced_settings\<close>,
  \<^verbatim>\<open>suggested_blocks\<close> or \<^verbatim>\<open>commonUseCases\<close> key.
\<close>

definition get_generic_config :: "string \<Rightarrow> section_dict" where
  "get_generic_config section_type =
     \<lparr> description = Some (''Custom '' @ section_type @ '' section''),
       essentialSettings = Some
         [[(''id'', JStr ''heading''),
           (''type'', JStr ''text''),
           (''label'', JStr ''Section Heading''),
           (''default'', JStr (title section_type @ '' Section''))]],
       recommendedSettings = Some
         [[(''id'', JStr ''background_color''),
           (''type'', JStr ''color''),
           (''label'', JStr ''Background Color''),
           (''default'', JStr ''#ffffff'')],
          [(''id'', JStr ''text_color''),
           (''type'', JStr ''color''),
           (''label'', JStr ''Text Color''),
           (''default'', JStr ''#000000'')]],
       advancedSettings = Some
         [[(''id'', JStr ''animation''),
           (''type'', JStr ''select''),
           (''label'', JStr ''Animation Effect''),
           (''options'', JList
              [JObj [(''value'', JStr ''none''), (''label'', JStr ''None'')],
               JObj [(''value'', JStr ''fadeIn''), (''label'', JStr ''Fade In'')]]),
           (''default'', JStr ''fadeIn'')]],
       suggestedBlocks = Some [],
       commonUseCases = None,
       intelligent_settings = Some \<lparr> essential = [], recommended = [], advanced = [] \<rparr>,
       suggested_settings = None,
       advanced_settings = None,
       suggested_blocks = None,
       intelligence_score = Some 25,
       optimization_tips =
         Some [''Consider adding more specific settings for better customization''] \<rparr>"

definition analyze_section_type :: "catalog \<Rightarrow> string \<Rightarrow> error + section_dict" where
  "analyze_section_type section_types section_type =
     (if section_type \<in> dom section_types
      then get_intelligent_config section_types section_type
      else Inr (get_generic_config section_type))"

text \<open>The empty dictionary \<^verbatim>\<open>{}\<close>, from which example catalog entries are built.\<close>

definition empty_dict :: section_dict where
  "empty_dict =
     \<lparr> description = None, essentialSettings = None, recommendedSettings = None,
       advancedSettings = None, suggestedBlocks = None, commonUseCases = None,
       intelligent_settings = None, suggested_settings = None, advanced_settings = None,
       suggested_blocks = None, intelligence_score = None, optimization_tips = None \<rparr>"

section \<open>SectionGenerator\<close>

text \<open>The dataclass \<^verbatim>\<open>SectionConfig\<close>.\<close>

record section_config =
  cfg_name :: string
  cfg_type :: string
  cfg_description :: string
  cfg_settings :: "setting_descriptor list"
  cfg_blocks :: "json list"
  cfg_presets :: "json list"
  cfg_intelligence_config :: section_dict

text \<open>
  The generator methods that return text return one fixed string literal each (a
  template body, a stylesheet or a script), whatever the configuration. A literal is
  named here by the method that returns it; its characters play no part below.
\<close>

datatype literal =
    Hero_template | Features_template | Testimonials_template | Generic_template
  | Hero_css | Features_css | Testimonials_css | Generic_css
  | Hero_js | Testimonials_js | Generic_js

definition generate_hero_template :: "section_config \<Rightarrow> literal" where
  "generate_hero_template config = Hero_template"

definition generate_features_template :: "section_config \<Rightarrow> literal" where
  "generate_features_template config = Features_template"

definition generate_testimonials_template :: "section_config \<Rightarrow> literal" where
  "generate_testimonials_template config = Testimonials_template"

definition generate_generic_template :: "section_config \<Rightarrow> literal" where
  "generate_generic_template config = Generic_template"

definition generate_hero_css :: "section_config \<Rightarrow> literal" where
  "generate_hero_css config = Hero_css"

definition generate_features_css :: "section_config \<Rightarrow> literal" where
  "generate_features_css config = Features_css"

definition generate_testimonials_css :: "section_config \<Rightarrow> literal" where
  "generate_testimonials_css config = Testimonials_css"

definition generate_generic_css :: "section_config \<Rightarrow> literal" where
  "generate_generic_css config = Generic_css"

definition generate_hero_js :: "section_config \<Rightarrow> literal" where
  "generate_hero_js config = Hero_js"

definition generate_testimonials_js :: "section_config \<Rightarrow> literal" where
  "generate_testimonials_js config = Testimonials_js"

definition generate_generic_js :: "section_config \<Rightarrow> literal" where
  "generate_generic_js config = Generic_js"

text \<open>
  The text-returning methods that the class \<^verbatim>\<open>SectionGenerator\<close> defines, by name:
  every \<^verbatim>\<open>def _generate_..._template\<close>, \<^verbatim>\<open>..._css\<close> and \<^verbatim>\<open>..._js\<close> of the source.
  \<^verbatim>\<open>self.m\<close> is a lookup in this table and raises AttributeError for a name that the
  class does not define.
\<close>

definition generator_methods :: "(string \<times> (section_config \<Rightarrow> literal)) list" where
  "generator_methods =
     [(''_generate_hero_template'', generate_hero_template),
      (''_generate_features_template'', generate_features_template),
      (''_generate_testimonials_template'', generate_testimonials_template),
      (''_generate_generic_template'', generate_generic_template),
      (''_generate_hero_css'', generate_hero_css),
      (''_generate_features_css'', generate_features_css),
      (''_generate_testimonials_css'', generate_testimonials_css),
      (''_generate_generic_css'', generate_generic_css),
      (''_generate_hero_js'', generate_hero_js),
      (''_generate_testimonials_js'', generate_testimonials_js),
      (''_generate_generic_js'', generate_generic_js)]"

definition self_method :: "string \<Rightarrow> error + (section_config \<Rightarrow> literal)" where
  "self_method method_name =
     (case map_of generator_methods method_name of
        Some m \<Rightarrow> Inr m
      | None \<Rightarrow> Inl (AttributeError method_name))"

text \<open>
  A dictionary display \<^verbatim>\<open>{'hero': self._generate_hero_template, ...}\<close> evaluates its
  values from first to last before any lookup in it; the first missing method raises.
\<close>

fun dispatch_table ::
  "(string \<times> string) list \<Rightarrow> error + (string \<times> (section_config \<Rightarrow> literal)) list" where
  "dispatch_table [] = Inr []"
| "dispatch_table ((section_type, method_name) # rest) =
     (case self_method method_name of
        Inl e \<Rightarrow> Inl e
      | Inr m \<Rightarrow>
          (case dispatch_table rest of
             Inl e \<Rightarrow> Inl e
           | Inr table \<Rightarrow> Inr ((section_type, m) # table)))"

text \<open>\<^verbatim>\<open>table.get(config.type, self.fallback)(config)\<close> after the table is built.\<close>

definition dispatch ::
  "(string \<times> string) list \<Rightarrow> string \<Rightarrow> section_config \<Rightarrow> error + literal" where
  "dispatch entries fallback config =
     (case dispatch_table entries of
        Inl e \<Rightarrow> Inl e
      | Inr table \<Rightarrow>
          (case self_method fallback of
             Inl e \<Rightarrow> Inl e
           | Inr generic \<Rightarrow>
               (case map_of table (cfg_type config) of
                  Some generator \<Rightarrow> Inr (generator config)
                | None \<Rightarrow> Inr (generic config))))"

definition generate_template_content :: "section_config \<Rightarrow> error + literal" where
  "generate_template_content config =
     dispatch
       [(''hero'', ''_generate_hero_template''),
        (''features'', ''_generate_features_template''),
        (''testimonials'', ''_generate_testimonials_template''),
        (''gallery'', ''_generate_gallery_template''),
        (''cta'', ''_generate_cta_template''),
        (''contact'', ''_generate_contact_template''),
        (''newsletter'', ''_generate_newsletter_template''),
        (''stats'', ''_generate_stats_template'')]
       ''_generate_generic_template'' config"

definition generate_css :: "section_config \<Rightarrow> error + literal" where
  "generate_css config =
     dispatch
       [(''hero'', ''_generate_hero_css''),
        (''features'', ''_generate_features_css''),
        (''testimonials'', ''_generate_testimonials_css''),
        (''gallery'', ''_generate_gallery_css''),
        (''cta'', ''_generate_cta_css''),
        (''contact'', ''_generate_contact_css''),
        (''newsletter'', ''_generate_newsletter_css''),
        (''stats'', ''_generate_stats_css'')]
       ''_generate_generic_css'' config"

definition generate_js :: "section_config \<Rightarrow> error + literal" where
  "generate_js config =
     dispatch
       [(''hero'', ''_generate_hero_js''),
        (''testimonials'', ''_generate_testimonials_js''),
        (''gallery'', ''_generate_gallery_js''),
        (''contact'', ''_generate_contact_js''),
        (''newsletter'', ''_generate_newsletter_js''),
        (''stats'', ''_generate_stats_js'')]
       ''_generate_generic_js'' config"

text \<open>The schema dictionary of \<^verbatim>\<open>_generate_intelligent_schema\<close> and its one preset.\<close>

record preset =
  preset_name :: string
  preset_category :: string
  preset_settings :: "string \<rightharpoonup> json"

record schema =
  schema_name :: string
  schema_tag :: string
  schema_class :: string
  schema_settings :: "setting_descriptor list"
  schema_blocks :: "json list"
  schema_presets :: "preset list"

text \<open>
  \<^verbatim>\<open>_get_preset_defaults\<close>: the loop over the settings, with the dictionary
  \<^verbatim>\<open>defaults\<close> as accumulator. A normalized setting always has the key
  \<^verbatim>\<open>default\<close>; Python's \<^verbatim>\<open>None\<close> is \<open>JNull\<close>.
\<close>

fun preset_defaults_loop ::
  "(string \<rightharpoonup> json) \<Rightarrow> setting_descriptor list \<Rightarrow> (string \<rightharpoonup> json)" where
  "preset_defaults_loop defaults [] = defaults"
| "preset_defaults_loop defaults (setting # rest) =
     preset_defaults_loop
       (if s_default setting \<noteq> JNull
        then defaults(s_id setting \<mapsto> s_default setting)
        else defaults)
       rest"

definition get_preset_defaults :: "setting_descriptor list \<Rightarrow> (string \<rightharpoonup> json)" where
  "get_preset_defaults settings = preset_defaults_loop Map.empty settings"

definition generate_intelligent_schema :: "section_config \<Rightarrow> schema" where
  "generate_intelligent_schema config =
     (let essential_settings =
            filter (\<lambda>s. s_category s = JStr ''essential'') (cfg_settings config);
          recommended_settings =
            filter (\<lambda>s. s_category s = JStr ''recommended'') (cfg_settings config);
          advanced_settings =
            filter (\<lambda>s. s_category s = JStr ''advanced'') (cfg_settings config);
          schema =
            \<lparr> schema_name = cfg_name config,
              schema_tag = ''section-'' @ cfg_type config,
              schema_class = ''section-'' @ cfg_type config,
              schema_settings = essential_settings @ recommended_settings,
              schema_blocks = cfg_blocks config,
              schema_presets =
                [\<lparr> preset_name = cfg_name config,
                    preset_category = ''Custom Sections'',
                    preset_settings = get_preset_defaults (cfg_settings config) \<rparr>] \<rparr>
      in if advanced_settings \<noteq> []
         then schema \<lparr> schema_settings := schema_settings schema @ advanced_settings \<rparr>
         else schema)"

text \<open>
  The text built by \<^verbatim>\<open>_generate_liquid\<close> is a fixed frame around these parts: the
  numbers of the comment, the schema (printed as JSON), the section type and the
  template body. The schema is built first, then \<^verbatim>\<open>_generate_template_content\<close> is
  called, and only then the text is put together.
\<close>

record liquid =
  info_type :: string
  info_score :: int
  info_settings_total :: nat
  info_settings_essential :: nat
  info_blocks :: nat
  liquid_schema :: schema
  liquid_section_type :: string
  liquid_template :: literal

definition generate_liquid :: "section_config \<Rightarrow> error + liquid" where
  "generate_liquid config =
     (let schema = generate_intelligent_schema config in
      case generate_template_content config of
        Inl e \<Rightarrow> Inl e
      | Inr template_content \<Rightarrow>
          Inr \<lparr> info_type = cfg_type config,
                info_score =
                  (case intelligence_score (cfg_intelligence_config config) of
                     Some n \<Rightarrow> n | None \<Rightarrow> 0),
                info_settings_total = length (cfg_settings config),
                info_settings_essential =
                  length (filter (\<lambda>s. s_category s = JStr ''essential'') (cfg_settings config)),
                info_blocks = length (cfg_blocks config),
                liquid_schema = schema,
                liquid_section_type = cfg_type config,
                liquid_template = template_content \<rparr>)"

text \<open>The dataclass \<^verbatim>\<open>GeneratedSection\<close>.\<close>

record generated_section =
  liquid_content :: liquid
  css_content :: literal
  js_content :: literal

text \<open>
  \<^verbatim>\<open>generate_section\<close> in three parts: the analysis, the configuration built from it
  (the statements up to \<^verbatim>\<open>config = SectionConfig(...)\<close>), and the three generators.
  The argument \<^verbatim>\<open>description\<close> is a string or \<^verbatim>\<open>None\<close>. The test
  \<^verbatim>\<open>use_advanced and 'intelligent_settings' in analysis\<close> is the first branch of the
  \<open>case\<close> together with the \<open>if\<close> inside it.
\<close>

definition section_config_for ::
  "section_dict \<Rightarrow> string \<Rightarrow> string \<Rightarrow> string option \<Rightarrow> bool \<Rightarrow> section_config" where
  "section_config_for analysis section_name section_type description_arg use_advanced =
     (let fallback_description =
            (case section_dict.description analysis of
               Some d \<Rightarrow> d
             | None \<Rightarrow> ''Custom '' @ section_type @ '' section'');
          description1 =
            (case description_arg of
               None \<Rightarrow> fallback_description
             | Some d \<Rightarrow> if d = [] then fallback_description else d);
          settings =
            (case intelligent_settings analysis of
               Some intelligent \<Rightarrow>
                 if use_advanced
                 then (let settings0 = essential intelligent @ recommended intelligent
                       in if use_advanced then settings0 @ advanced intelligent else settings0)
                 else get_list (suggested_settings analysis)
             | None \<Rightarrow> get_list (suggested_settings analysis))
      in \<lparr> cfg_name = section_name,
           cfg_type = section_type,
           cfg_description = description1,
           cfg_settings = settings,
           cfg_blocks = get_list (suggested_blocks analysis),
           cfg_presets = [],
           cfg_intelligence_config = analysis \<rparr>)"

definition generate_from_config :: "section_config \<Rightarrow> error + generated_section" where
  "generate_from_config config =
     (case generate_liquid config of
        Inl e \<Rightarrow> Inl e
      | Inr liquid_text \<Rightarrow>
          (case generate_css config of
             Inl e \<Rightarrow> Inl e
           | Inr css_text \<Rightarrow>
               (case generate_js config of
                  Inl e \<Rightarrow> Inl e
                | Inr js_text \<Rightarrow>
                    Inr \<lparr> liquid_content = liquid_text,
                          css_content = css_text,
                          js_content = js_text \<rparr>)))"

definition generate_section ::
  "catalog \<Rightarrow> string \<Rightarrow> string \<Rightarrow> string option \<Rightarrow> bool \<Rightarrow> error + generated_section" where
  "generate_section section_types section_name section_type description_arg use_advanced =
     (case analyze_section_type section_types section_type of
        Inl e \<Rightarrow> Inl e
      | Inr analysis \<Rightarrow>
          generate_from_config
            (section_config_for analysis section_name section_type description_arg use_advanced))"

section \<open>Loading the catalog\<close>

text \<open>
  What \<^verbatim>\<open>open(self.config_path)\<close> and reading the file can give: no such file, another
  operating-system error, bytes that are not UTF-8, or the text of the file.
\<close>

datatype config_file =
    File_missing
  | File_unreadable
  | File_not_utf8
  | File_text string

text \<open>
  The empty configuration that both exception handlers of
  \<^verbatim>\<open>_load_intelligence_config\<close> return.
\<close>

definition basic_config :: json where
  "basic_config = JObj [(''sectionTypes'', JObj []), (''intelligenceRules'', JObj [])]"

text \<open>
  \<^verbatim>\<open>_load_intelligence_config\<close>. The JSON parser is a library function and is a
  parameter here: \<open>json_load text\<close> is the value that \<^verbatim>\<open>json.load\<close> returns for the
  text, any JSON value, or the exception it raises. Only FileNotFoundError and
  JSONDecodeError are caught; every other exception leaves the method. The warning that
  is printed in both handlers is not modelled.
\<close>

definition load_intelligence_config ::
  "(string \<Rightarrow> error + json) \<Rightarrow> config_file \<Rightarrow> error + json" where
  "load_intelligence_config json_load file =
     (case file of
        File_missing \<Rightarrow> Inr basic_config
      | File_unreadable \<Rightarrow> Inl (OSError ''open'')
      | File_not_utf8 \<Rightarrow> Inl UnicodeDecodeError
      | File_text text \<Rightarrow>
          (case json_load text of
             Inr document \<Rightarrow> Inr document
           | Inl e \<Rightarrow> if e = JSONDecodeError then Inr basic_config else Inl e))"

text \<open>
  \<^verbatim>\<open>SectionTypeAnalyzer.__init__\<close>: the analyzer's \<^verbatim>\<open>section_types\<close> is
  \<^verbatim>\<open>self.intelligence_config.get('sectionTypes', {})\<close>, whatever value the document
  has there. Only a dictionary has \<^verbatim>\<open>get\<close>: a document that is a list, a string, a
  number, a truth value or null raises AttributeError.
\<close>

definition analyzer_init :: "(string \<Rightarrow> error + json) \<Rightarrow> config_file \<Rightarrow> error + json" where
  "analyzer_init json_load file =
     (case load_intelligence_config json_load file of
        Inl e \<Rightarrow> Inl e
      | Inr intelligence_config \<Rightarrow>
          (case intelligence_config of
             JObj items \<Rightarrow> Inr (dict_get items ''sectionTypes'' (JObj []))
           | _ \<Rightarrow> Inl (AttributeError ''get'')))"

section \<open>The analyzer on a loaded document\<close>

text \<open>
  After loading, \<^verbatim>\<open>self.section_types\<close> is whatever JSON value the document holds,
  and the analyzer's methods run on it as Python runs them on untyped values. This
  section writes them out on JSON values; the association list of an object has every
  key once, as \<^verbatim>\<open>json.load\<close> builds it. The analyzer of the section before is the
  same code on catalogs of the shape the specification describes.
\<close>

fun starts_with :: "string \<Rightarrow> string \<Rightarrow> bool" where
  "starts_with s [] = True"
| "starts_with [] (c # cs) = False"
| "starts_with (x # xs) (c # cs) = (x = c \<and> starts_with xs cs)"

fun substring_of :: "string \<Rightarrow> string \<Rightarrow> bool" where
  "substring_of k [] = (k = [])"
| "substring_of k (x # xs) = (starts_with (x # xs) k \<or> substring_of k xs)"

text \<open>
  \<^verbatim>\<open>k in v\<close> for a string \<open>k\<close>: a key of a dictionary, an element of a list, a
  substring of a string; TypeError on a value that is not a container.
\<close>

definition py_in :: "string \<Rightarrow> json \<Rightarrow> error + bool" where
  "py_in k v =
     (case v of
        JObj items \<Rightarrow> Inr (map_of items k \<noteq> None)
      | JList xs \<Rightarrow> Inr (JStr k \<in> set xs)
      | JStr s \<Rightarrow> Inr (substring_of k s)
      | _ \<Rightarrow> Inl (TypeError ''argument is not iterable''))"

text \<open>\<^verbatim>\<open>v[k]\<close> for a string \<open>k\<close>: only a dictionary can be indexed by a string.\<close>

definition py_getitem :: "json \<Rightarrow> string \<Rightarrow> error + json" where
  "py_getitem v k =
     (case v of
        JObj items \<Rightarrow> (case map_of items k of Some x \<Rightarrow> Inr x | None \<Rightarrow> Inl (KeyError k))
      | JList xs \<Rightarrow> Inl (TypeError ''list indices must be integers'')
      | JStr s \<Rightarrow> Inl (TypeError ''string indices must be integers'')
      | _ \<Rightarrow> Inl (TypeError ''not subscriptable''))"

text \<open>\<^verbatim>\<open>v.copy()\<close>: dictionaries and lists have the method.\<close>

definition py_copy :: "json \<Rightarrow> error + json" where
  "py_copy v =
     (case v of
        JObj items \<Rightarrow> Inr (JObj items)
      | JList xs \<Rightarrow> Inr (JList xs)
      | _ \<Rightarrow> Inl (AttributeError ''copy''))"

text \<open>
  The values a \<^verbatim>\<open>for\<close> loop over \<open>v\<close> visits: the elements of a list, the
  characters of a string, the keys of a dictionary.
\<close>

definition py_iter :: "json \<Rightarrow> error + json list" where
  "py_iter v =
     (case v of
        JList xs \<Rightarrow> Inr xs
      | JStr s \<Rightarrow> Inr (map (\<lambda>c. JStr [c]) s)
      | JObj items \<Rightarrow> Inr (map (\<lambda>item. JStr (fst item)) items)
      | _ \<Rightarrow> Inl (TypeError ''object is not iterable''))"

definition py_truthy :: "json \<Rightarrow> bool" where
  "py_truthy v =
     (case v of
        JNull \<Rightarrow> False
      | JBool b \<Rightarrow> b
      | JInt n \<Rightarrow> n \<noteq> 0
      | JStr s \<Rightarrow> s \<noteq> []
      | JList xs \<Rightarrow> xs \<noteq> []
      | JObj items \<Rightarrow> items \<noteq> [])"

definition py_len :: "json \<Rightarrow> error + int" where
  "py_len v =
     (case v of
        JList xs \<Rightarrow> Inr (int (length xs))
      | JStr s \<Rightarrow> Inr (int (length s))
      | JObj items \<Rightarrow> Inr (int (length items))
      | _ \<Rightarrow> Inl (TypeError ''object has no len''))"

text \<open>\<^verbatim>\<open>d[k] = v\<close>: an existing key keeps its place, a new key goes last.\<close>

fun dict_set :: "string \<Rightarrow> json \<Rightarrow> (string \<times> json) list \<Rightarrow> (string \<times> json) list" where
  "dict_set k v [] = [(k, v)]"
| "dict_set k v (item # items) =
     (if fst item = k then (k, v) # items else item # dict_set k v items)"

text \<open>The dictionary that \<^verbatim>\<open>_normalize_setting\<close> builds, with its keys in order.\<close>

definition json_of_descriptor :: "setting_descriptor \<Rightarrow> json" where
  "json_of_descriptor d =
     JObj ([(''type'', s_type d),
            (''id'', JStr (s_id d)),
            (''label'', s_label d),
            (''default'', s_default d),
            (''required'', s_required d),
            (''info'', s_info d),
            (''category'', s_category d)]
           @ (case s_options d of Some v \<Rightarrow> [(''options'', v)] | None \<Rightarrow> [])
           @ (case s_range d of
                Some (lo, hi, u) \<Rightarrow> [(''min'', lo), (''max'', hi), (''unit'', u)]
              | None \<Rightarrow> [])
           @ (case s_validation d of Some v \<Rightarrow> [(''validation'', v)] | None \<Rightarrow> []))"

text \<open>
  \<^verbatim>\<open>_normalize_setting\<close> on any value: its first step is \<^verbatim>\<open>setting.get\<close>, which
  only a dictionary has.
\<close>

definition normalize_setting_json :: "json \<Rightarrow> error + json" where
  "normalize_setting_json setting =
     (case setting of
        JObj items \<Rightarrow>
          (case normalize_setting items of
             Inl e \<Rightarrow> Inl e
           | Inr d \<Rightarrow> Inr (json_of_descriptor d))
      | _ \<Rightarrow> Inl (AttributeError ''get''))"

fun normalize_each_json :: "json list \<Rightarrow> error + json list" where
  "normalize_each_json [] = Inr []"
| "normalize_each_json (setting # rest) =
     (case normalize_setting_json setting of
        Inl e \<Rightarrow> Inl e
      | Inr d \<Rightarrow>
          (case normalize_each_json rest of
             Inl e \<Rightarrow> Inl e
           | Inr ds \<Rightarrow> Inr (d # ds)))"

text \<open>One loop of \<^verbatim>\<open>_organize_settings\<close>: \<^verbatim>\<open>for setting in section_config.get(key, [])\<close>.\<close>

definition organize_key :: "(string \<times> json) list \<Rightarrow> string \<Rightarrow> error + json list" where
  "organize_key section_config key =
     (case py_iter (dict_get section_config key (JList [])) of
        Inl e \<Rightarrow> Inl e
      | Inr settings \<Rightarrow> normalize_each_json settings)"

text \<open>
  \<^verbatim>\<open>_organize_settings\<close> on a dictionary; the result is the three lists of the
  dictionary \<^verbatim>\<open>organized\<close>.
\<close>

definition organize_settings_json ::
  "(string \<times> json) list \<Rightarrow> error + (json list \<times> json list \<times> json list)" where
  "organize_settings_json section_config =
     (case organize_key section_config ''essentialSettings'' of
        Inl e \<Rightarrow> Inl e
      | Inr es \<Rightarrow>
          (case organize_key section_config ''recommendedSettings'' of
             Inl e \<Rightarrow> Inl e
           | Inr rs \<Rightarrow>
               (case organize_key section_config ''advancedSettings'' of
                  Inl e \<Rightarrow> Inl e
                | Inr as \<Rightarrow> Inr (es, rs, as))))"

text \<open>
  \<^verbatim>\<open>_calculate_intelligence_score\<close> on a dictionary: \<^verbatim>\<open>get(key)\<close> without a default is
  \<^verbatim>\<open>None\<close> for an absent key, and \<^verbatim>\<open>len\<close> raises on a value without a length.
\<close>

definition calculate_intelligence_score_json :: "(string \<times> json) list \<Rightarrow> error + int" where
  "calculate_intelligence_score_json section_config =
     (let score0 = 0;
          score1 = (if py_truthy (dict_get section_config ''essentialSettings'' JNull)
                    then score0 + 30 else score0);
          score2 = (if py_truthy (dict_get section_config ''recommendedSettings'' JNull)
                    then score1 + 25 else score1)
      in case py_len (dict_get section_config ''advancedSettings'' (JList [])) of
           Inl e \<Rightarrow> Inl e
         | Inr advanced_count \<Rightarrow>
             (let score3 = (if advanced_count > 0
                            then score2 + min (advanced_count * 5) 20 else score2);
                  score4 = (if py_truthy (dict_get section_config ''suggestedBlocks'' JNull)
                            then score3 + 15 else score3);
                  score5 = (if py_truthy (dict_get section_config ''commonUseCases'' JNull)
                            then score4 + 10 else score4)
              in Inr (min score5 100)))"

text \<open>
  \<^verbatim>\<open>_get_intelligent_config\<close> on the loaded value. A copy that is a list fails at the
  first \<^verbatim>\<open>section_config.get\<close> of \<^verbatim>\<open>_organize_settings\<close>. The six keys are set in the
  order of the dictionary passed to \<^verbatim>\<open>update\<close>.
\<close>

definition get_intelligent_config_json :: "json \<Rightarrow> string \<Rightarrow> error + json" where
  "get_intelligent_config_json section_types section_type =
     (case py_getitem section_types section_type of
        Inl e \<Rightarrow> Inl e
      | Inr entry \<Rightarrow>
          (case py_copy entry of
             Inl e \<Rightarrow> Inl e
           | Inr (JObj section_config) \<Rightarrow>
               (case organize_settings_json section_config of
                  Inl e \<Rightarrow> Inl e
                | Inr (es, rs, as) \<Rightarrow>
                    (case calculate_intelligence_score_json section_config of
                       Inl e \<Rightarrow> Inl e
                     | Inr score \<Rightarrow>
                         Inr (JObj
                           (dict_set ''optimization_tips''
                              (JList (map JStr (get_optimization_tips section_type)))
                           (dict_set ''intelligence_score'' (JInt score)
                           (dict_set ''suggested_blocks''
                              (dict_get section_config ''suggestedBlocks'' (JList []))
                           (dict_set ''advanced_settings'' (JList as)
                           (dict_set ''suggested_settings'' (JList (es @ rs))
                           (dict_set ''intelligent_settings''
                              (JObj [(''essential'', JList es),
                                     (''recommended'', JList rs),
                                     (''advanced'', JList as)])
                              section_config)))))))))
           | Inr _ \<Rightarrow> Inl (AttributeError ''get'')))"

text \<open>\<^verbatim>\<open>_get_generic_config\<close> as the dictionary it is, with its keys in order.\<close>

definition get_generic_config_json :: "string \<Rightarrow> json" where
  "get_generic_config_json section_type =
     JObj
       [(''description'', JStr (''Custom '' @ section_type @ '' section'')),
        (''essentialSettings'', JList
           [JObj [(''id'', JStr ''heading''),
                  (''type'', JStr ''text''),
                  (''label'', JStr ''Section Heading''),
                  (''default'', JStr (title section_type @ '' Section''))]]),
        (''recommendedSettings'', JList
           [JObj [(''id'', JStr ''background_color''),
                  (''type'', JStr ''color''),
                  (''label'', JStr ''Background Color''),
                  (''default'', JStr ''#ffffff'')],
            JObj [(''id'', JStr ''text_color''),
                  (''type'', JStr ''color''),
                  (''label'', JStr ''Text Color''),
                  (''default'', JStr ''#000000'')]]),
        (''advancedSettings'', JList
           [JObj [(''id'', JStr ''animation''),
                  (''type'', JStr ''select''),
                  (''label'', JStr ''Animation Effect''),
                  (''options'', JList
                     [JObj [(''value'', JStr ''none''), (''label'', JStr ''None'')],
                      JObj [(''value'', JStr ''fadeIn''), (''label'', JStr ''Fade In'')]]),
                  (''default'', JStr ''fadeIn'')]]),
        (''suggestedBlocks'', JList []),
        (''intelligent_settings'',
           JObj [(''essential'', JList []), (''recommended'', JList []),
                 (''advanced'', JList [])]),
        (''intelligence_score'', JInt 25),
        (''optimization_tips'',
           JList [JStr ''Consider adding more specific settings for better customization''])]"

definition analyze_section_type_json :: "json \<Rightarrow> string \<Rightarrow> error + json" where
  "analyze_section_type_json section_types section_type =
     (case py_in section_type section_types of
        Inl e \<Rightarrow> Inl e
      | Inr True \<Rightarrow> get_intelligent_config_json section_types section_type
      | Inr False \<Rightarrow> Inr (get_generic_config_json section_type))"

text \<open>
  A catalog of the specified shape, and a report of the analyzer on such catalogs,
  written as the JSON value it stands for. Present keys appear in the order: the keys
  of a catalog entry, then the six keys that the analysis adds.
\<close>

definition json_of_organized :: "organized \<Rightarrow> json" where
  "json_of_organized org =
     JObj [(''essential'', JList (map json_of_descriptor (essential org))),
           (''recommended'', JList (map json_of_descriptor (recommended org))),
           (''advanced'', JList (map json_of_descriptor (advanced org)))]"

definition optional_item :: "string \<Rightarrow> ('a \<Rightarrow> json) \<Rightarrow> 'a option \<Rightarrow> (string \<times> json) list" where
  "optional_item k f x = (case x of None \<Rightarrow> [] | Some v \<Rightarrow> [(k, f v)])"

definition section_dict_items :: "section_dict \<Rightarrow> (string \<times> json) list" where
  "section_dict_items d =
     optional_item ''description'' JStr (section_dict.description d)
     @ optional_item ''essentialSettings'' (\<lambda>xs. JList (map JObj xs)) (essentialSettings d)
     @ optional_item ''recommendedSettings'' (\<lambda>xs. JList (map JObj xs)) (recommendedSettings d)
     @ optional_item ''advancedSettings'' (\<lambda>xs. JList (map JObj xs)) (advancedSettings d)
     @ optional_item ''suggestedBlocks'' JList (suggestedBlocks d)
     @ optional_item ''commonUseCases'' JList (commonUseCases d)
     @ optional_item ''intelligent_settings'' json_of_organized (intelligent_settings d)
     @ optional_item ''suggested_settings'' (\<lambda>xs. JList (map json_of_descriptor xs))
         (suggested_settings d)
     @ optional_item ''advanced_settings'' (\<lambda>xs. JList (map json_of_descriptor xs))
         (advanced_settings d)
     @ optional_item ''suggested_blocks'' JList (suggested_blocks d)
     @ optional_item ''intelligence_score'' JInt (intelligence_score d)
     @ optional_item ''optimization_tips'' (\<lambda>xs. JList (map JStr xs)) (optimization_tips d)"

definition json_of_section_dict :: "section_dict \<Rightarrow> json" where
  "json_of_section_dict d = JObj (section_dict_items d)"

definition json_of_catalog :: "(string \<times> section_dict) list \<Rightarrow> json" where
  "json_of_catalog entries = JObj (map (\<lambda>(k, entry). (k, json_of_section_dict entry)) entries)"

text \<open>A catalog entry as loaded has none of the six keys that the analysis adds.\<close>

definition plain_entry :: "section_dict \<Rightarrow> bool" where
  "plain_entry d =
     (intelligent_settings d = None \<and> suggested_settings d = None
      \<and> advanced_settings d = None \<and> suggested_blocks d = None
      \<and> intelligence_score d = None \<and> optimization_tips d = None)"

section \<open>The analyzer on a store of dictionaries\<close>

text \<open>
  Python dictionaries are objects: \<^verbatim>\<open>self.section_types\<close> maps a type name to a
  reference, \<^verbatim>\<open>copy()\<close> makes a new object and \<^verbatim>\<open>update\<close> writes into the object it
  is called on. The store is the list of the dictionaries allocated so far and a
  reference is an index into it. The values inside a dictionary (the raw lists) are
  shared by the copy and are never written by the analyzer.
\<close>

type_synonym store = "section_dict list"

type_synonym catalog_refs = "string \<rightharpoonup> nat"

definition dict_copy :: "store \<Rightarrow> nat \<Rightarrow> nat \<times> store" where
  "dict_copy objects r = (length objects, objects @ [objects ! r])"

definition dict_new :: "store \<Rightarrow> section_dict \<Rightarrow> nat \<times> store" where
  "dict_new objects d = (length objects, objects @ [d])"

definition dict_update :: "store \<Rightarrow> nat \<Rightarrow> (section_dict \<Rightarrow> section_dict) \<Rightarrow> store" where
  "dict_update objects r f = objects[r := f (objects ! r)]"

text \<open>The catalog as the analyzer sees it through its references.\<close>

definition catalog_of :: "catalog_refs \<Rightarrow> store \<Rightarrow> catalog" where
  "catalog_of section_types objects =
     (\<lambda>section_type. map_option (\<lambda>r. objects ! r) (section_types section_type))"

definition get_intelligent_config_st ::
  "catalog_refs \<Rightarrow> store \<Rightarrow> string \<Rightarrow> (error + nat) \<times> store" where
  "get_intelligent_config_st section_types objects section_type =
     (case section_types section_type of
        None \<Rightarrow> (Inl (KeyError section_type), objects)
      | Some r \<Rightarrow>
          (let (section_config, objects1) = dict_copy objects r in
           case organize_settings (objects1 ! section_config) of
             Inl e \<Rightarrow> (Inl e, objects1)
           | Inr organized_settings \<Rightarrow>
               (let suggested_blocks_value =
                      get_list (suggestedBlocks (objects1 ! section_config));
                    score = calculate_intelligence_score (objects1 ! section_config);
                    tips = get_optimization_tips section_type
                in (Inr section_config,
                    dict_update objects1 section_config
                      (\<lambda>d. d \<lparr> intelligent_settings := Some organized_settings,
                               suggested_settings :=
                                 Some (essential organized_settings
                                       @ recommended organized_settings),
                               advanced_settings := Some (advanced organized_settings),
                               suggested_blocks := Some suggested_blocks_value,
                               intelligence_score := Some score,
                               optimization_tips := Some tips \<rparr>)))))"

definition analyze_section_type_st ::
  "catalog_refs \<Rightarrow> store \<Rightarrow> string \<Rightarrow> (error + nat) \<times> store" where
  "analyze_section_type_st section_types objects section_type =
     (if section_type \<in> dom section_types
      then get_intelligent_config_st section_types objects section_type
      else (let (generic, objects1) = dict_new objects (get_generic_config section_type)
            in (Inr generic, objects1)))"

text \<open>What a call returned, read in a store: the exception, or the dictionary returned.\<close>

definition returned :: "(error + nat) \<Rightarrow> store \<Rightarrow> error + section_dict" where
  "returned result objects =
     (case result of Inl e \<Rightarrow> Inl e | Inr r \<Rightarrow> Inr (objects ! r))"

section \<open>The scoring rule as specified\<close>

text \<open>
  The rule in the words of the specification, on the five lists of a catalog entry:
  30 for essential settings, 25 for recommended settings, 5 for each advanced setting up
  to 20, 15 for suggested blocks, 10 for common use cases, clamped to 0..100.
\<close>

definition spec_score :: "'a list \<Rightarrow> 'b list \<Rightarrow> 'c list \<Rightarrow> 'd list \<Rightarrow> 'e list \<Rightarrow> int" where
  "spec_score essential_list recommended_list advanced_list blocks use_cases =
     max 0 (min 100
       ((if essential_list \<noteq> [] then 30 else 0)
        + (if recommended_list \<noteq> [] then 25 else 0)
        + min (5 * int (length advanced_list)) 20
        + (if blocks \<noteq> [] then 15 else 0)
        + (if use_cases \<noteq> [] then 10 else 0)))"

section \<open>The schema on the way through generate_section\<close>

text \<open>
  \<^verbatim>\<open>generate_section\<close> up to the schema: the analysis, the configuration, and the call
  of \<^verbatim>\<open>_generate_intelligent_schema\<close> with which \<^verbatim>\<open>_generate_liquid\<close> begins.
\<close>

definition generate_section_schema ::
  "catalog \<Rightarrow> string \<Rightarrow> string \<Rightarrow> string option \<Rightarrow> bool \<Rightarrow> error + schema" where
  "generate_section_schema section_types section_name section_type description_arg use_advanced =
     (case analyze_section_type section_types section_type of
        Inl e \<Rightarrow> Inl e
      | Inr analysis \<Rightarrow>
          Inr (generate_intelligent_schema
                 (section_config_for analysis section_name section_type description_arg
                    use_advanced)))"

section \<open>Example data\<close>

text \<open>
  A catalog entry whose raw settings carry no \<^verbatim>\<open>category\<close>, one whose raw settings
  each name the tier of their list, two normalized settings (an image picker without a
  default and a color with one), and a stand-in for the JSON parser that knows the
  documents \<^verbatim>\<open>{}\<close> and \<^verbatim>\<open>[]\<close> and rejects every other text.
\<close>

definition hero_entry :: section_dict where
  "hero_entry =
     empty_dict
       \<lparr> essentialSettings := Some [[(''id'', JStr ''heading_text'')]],
         recommendedSettings :=
           Some [[(''id'', JStr ''overlay_color''), (''type'', JStr ''color'')]],
         advancedSettings :=
           Some [[(''id'', JStr ''parallax_effect''), (''type'', JStr ''checkbox'')]],
         commonUseCases := Some [JStr ''Homepage banner''] \<rparr>"

definition tagged_entry :: section_dict where
  "tagged_entry =
     empty_dict
       \<lparr> essentialSettings :=
           Some [[(''id'', JStr ''heading_text''), (''category'', JStr ''essential'')]],
         recommendedSettings :=
           Some [[(''id'', JStr ''overlay_color''), (''type'', JStr ''color''),
                  (''category'', JStr ''recommended'')]],
         advancedSettings :=
           Some [[(''id'', JStr ''parallax_effect''), (''type'', JStr ''checkbox''),
                  (''category'', JStr ''advanced'')]] \<rparr>"

definition image_setting :: setting_descriptor where
  "image_setting =
     \<lparr> s_type = JStr ''image_picker'', s_id = ''background_image'',
       s_label = JStr ''Background Image'', s_default = JNull, s_required = JBool False,
       s_info = JStr [], s_category = JStr ''recommended'', s_options = None,
       s_range = None, s_validation = None \<rparr>"

definition color_setting :: setting_descriptor where
  "color_setting =
     \<lparr> s_type = JStr ''color'', s_id = ''background_color'',
       s_label = JStr ''Background Color'', s_default = JStr ''#ffffff'',
       s_required = JBool False, s_info = JStr [], s_category = JStr ''recommended'',
       s_options = None, s_range = None, s_validation = None \<rparr>"

definition tiny_json_load :: "string \<Rightarrow> error + json" where
  "tiny_json_load text =
     (if text = ''{}'' then Inr (JObj [])
      else if text = ''[]'' then Inr (JList [])
      else Inl JSONDecodeError)"

section \<open>Auxiliary facts\<close>

lemmas eval_defs =
  analyze_section_type_def get_intelligent_config_def organize_settings_def
  normalize_setting_def get_default_for_type_def dict_get_def get_list_def truthy_def
  calculate_intelligence_score_def get_optimization_tips_def empty_dict_def
  title_def replace_underscores_def is_cased_def to_upper_def to_lower_def
  ascii_lower_def ascii_upper_def

lemma normalize_each_length:
  "normalize_each xs = Inr ds \<Longrightarrow> length ds = length xs"
  by (induction xs arbitrary: ds) (auto split: sum.splits)

lemma normalize_setting_category:
  "normalize_setting s = Inr d \<Longrightarrow>
   s_category d = dict_get s ''category'' (JStr ''recommended'')"
  by (auto simp: normalize_setting_def split: option.splits json.splits sum.splits)

lemma normalize_each_category:
  "normalize_each xs = Inr ds \<Longrightarrow>
   map s_category ds = map (\<lambda>s. dict_get s ''category'' (JStr ''recommended'')) xs"
  by (induction xs arbitrary: ds) (auto split: sum.splits dest: normalize_setting_category)

lemma organize_settings_Inr:
  "organize_settings cfg = Inr org \<Longrightarrow>
   normalize_each (get_list (essentialSettings cfg)) = Inr (essential org) \<and>
   normalize_each (get_list (recommendedSettings cfg)) = Inr (recommended org) \<and>
   normalize_each (get_list (advancedSettings cfg)) = Inr (advanced org)"
  by (auto simp: organize_settings_def split: sum.splits)

lemma analyze_unknown:
  "cat t = None \<Longrightarrow> analyze_section_type cat t = Inr (get_generic_config t)"
  by (simp add: analyze_section_type_def dom_def)

lemma analyze_known:
  "cat t = Some entry \<Longrightarrow> analyze_section_type cat t = Inr r \<Longrightarrow>
   \<exists>org. organize_settings entry = Inr org \<and>
     r = entry \<lparr> intelligent_settings := Some org,
                 suggested_settings := Some (essential org @ recommended org),
                 advanced_settings := Some (advanced org),
                 suggested_blocks := Some (get_list (suggestedBlocks entry)),
                 intelligence_score := Some (calculate_intelligence_score entry),
                 optimization_tips := Some (get_optimization_tips t) \<rparr>"
  by (auto simp: analyze_section_type_def get_intelligent_config_def Let_def dom_def
           split: sum.splits)

lemma score_eq_spec:
  "calculate_intelligence_score d =
   spec_score (get_list (essentialSettings d)) (get_list (recommendedSettings d))
     (get_list (advancedSettings d)) (get_list (suggestedBlocks d))
     (get_list (commonUseCases d))"
  by (cases "essentialSettings d"; cases "recommendedSettings d"; cases "advancedSettings d";
      cases "suggestedBlocks d"; cases "commonUseCases d")
     (auto simp: calculate_intelligence_score_def spec_score_def truthy_def get_list_def Let_def
           min_def max_def)

lemma spec_score_bounds: "0 \<le> spec_score a b c d e \<and> spec_score a b c d e \<le> 100"
  by (simp add: spec_score_def)

lemma generate_template_content_raises:
  "generate_template_content config = Inl (AttributeError ''_generate_gallery_template'')"
  by (simp add: generate_template_content_def dispatch_def self_method_def
        generator_methods_def)

lemma schema_settings_eq:
  "schema_settings (generate_intelligent_schema config) =
     filter (\<lambda>s. s_category s = JStr ''essential'') (cfg_settings config)
     @ filter (\<lambda>s. s_category s = JStr ''recommended'') (cfg_settings config)
     @ filter (\<lambda>s. s_category s = JStr ''advanced'') (cfg_settings config)"
  by (simp add: generate_intelligent_schema_def Let_def)

lemma working_set_without_advanced:
  "cfg_settings (section_config_for analysis n t d False) =
   get_list (suggested_settings analysis)"
  by (simp add: section_config_for_def Let_def split: option.splits)

lemma working_set_with_advanced:
  "intelligent_settings analysis = Some i \<Longrightarrow>
   cfg_settings (section_config_for analysis n t d True) =
   essential i @ recommended i @ advanced i"
  by (simp add: section_config_for_def Let_def)

lemma preset_defaults_loop_other:
  "k \<notin> s_id ` set ss \<Longrightarrow> preset_defaults_loop m ss k = m k"
  by (induction ss arbitrary: m) auto

lemma preset_defaults_loop_dom:
  "dom (preset_defaults_loop m ss) =
     dom m \<union> {s_id s |s. s \<in> set ss \<and> s_default s \<noteq> JNull}"
  by (induction ss arbitrary: m) auto

lemma preset_defaults_loop_source:
  "preset_defaults_loop m ss k = Some v \<Longrightarrow>
   m k = Some v \<or> (\<exists>s \<in> set ss. s_id s = k \<and> s_default s = v \<and> v \<noteq> JNull)"
proof (induction ss arbitrary: m)
  case Nil
  then show ?case by simp
next
  case (Cons a ss)
  from Cons.IH [OF Cons.prems [simplified]] show ?case
    by (auto split: if_splits)
qed

lemma preset_defaults_loop_value:
  "distinct (map s_id ss) \<Longrightarrow> s \<in> set ss \<Longrightarrow> s_default s \<noteq> JNull \<Longrightarrow>
   preset_defaults_loop m ss (s_id s) = Some (s_default s)"
proof (induction ss arbitrary: m)
  case Nil
  then show ?case by simp
next
  case (Cons a ss)
  show ?case
  proof (cases "s = a")
    case True
    then show ?thesis
      using Cons.prems by (simp add: preset_defaults_loop_other)
  next
    case False
    then show ?thesis
      using Cons by simp
  qed
qed

lemma catalog_of_append:
  "\<forall>r \<in> ran section_types. r < length objects \<Longrightarrow>
   catalog_of section_types (objects @ extra) = catalog_of section_types objects"
proof (rule ext)
  fix section_type
  assume wf: "\<forall>r \<in> ran section_types. r < length objects"
  show "catalog_of section_types (objects @ extra) section_type
        = catalog_of section_types objects section_type"
  proof (cases "section_types section_type")
    case None
    then show ?thesis by (simp add: catalog_of_def)
  next
    case (Some r)
    then have "r < length objects" using wf by (auto simp: ran_def)
    then show ?thesis using Some by (simp add: catalog_of_def nth_append)
  qed
qed

text \<open>A call allocates exactly one dictionary and returns, if anything, its reference.\<close>

lemma analyze_st_extends:
  assumes "analyze_section_type_st section_types objects t = (res, objects1)"
  shows "\<exists>d. objects1 = objects @ [d] \<and> (\<forall>r. res = Inr r \<longrightarrow> r = length objects)"
  using assms
  by (auto simp: analyze_section_type_st_def get_intelligent_config_st_def dict_copy_def
        dict_new_def dict_update_def Let_def split: option.splits sum.splits if_splits)

text \<open>
  The analyzer on the store returns what the analyzer on values returns for the catalog
  read through the references.
\<close>

lemma analyze_st_refines:
  assumes "analyze_section_type_st section_types objects t = (res, objects1)"
  shows "returned res objects1 = analyze_section_type (catalog_of section_types objects) t"
  using assms
  by (auto simp: analyze_section_type_st_def get_intelligent_config_st_def dict_copy_def
        dict_new_def dict_update_def Let_def returned_def analyze_section_type_def
        get_intelligent_config_def catalog_of_def dom_def
        split: option.splits sum.splits if_splits)

lemma organize_settings_category:
  assumes "organize_settings cfg = Inr org"
  shows "map s_category (essential org) =
           map (\<lambda>s. dict_get s ''category'' (JStr ''recommended''))
             (get_list (essentialSettings cfg))"
    and "map s_category (recommended org) =
           map (\<lambda>s. dict_get s ''category'' (JStr ''recommended''))
             (get_list (recommendedSettings cfg))"
    and "map s_category (advanced org) =
           map (\<lambda>s. dict_get s ''category'' (JStr ''recommended''))
             (get_list (advancedSettings cfg))"
  using organize_settings_Inr [OF assms] normalize_each_category by blast+

text \<open>
  The analyzer on loaded JSON values agrees with the analyzer on catalogs of the
  specified shape.
\<close>

lemma generic_json: "get_generic_config_json t = json_of_section_dict (get_generic_config t)"
  by (simp add: get_generic_config_json_def json_of_section_dict_def get_generic_config_def
        section_dict_items_def optional_item_def json_of_organized_def)

lemma map_of_optional_item:
  "map_of (optional_item k f x @ rest) k' =
     (if k' = k then (case x of Some v \<Rightarrow> Some (f v) | None \<Rightarrow> map_of rest k')
      else map_of rest k')"
  by (cases x) (simp_all add: optional_item_def)

lemma map_of_optional_last:
  "map_of (optional_item k f x) k' = (if k' = k then map_option f x else None)"
  by (cases x) (simp_all add: optional_item_def)

lemma raw_lookups:
  "map_of (section_dict_items d) ''essentialSettings''
     = map_option (\<lambda>xs. JList (map JObj xs)) (essentialSettings d)"
  "map_of (section_dict_items d) ''recommendedSettings''
     = map_option (\<lambda>xs. JList (map JObj xs)) (recommendedSettings d)"
  "map_of (section_dict_items d) ''advancedSettings''
     = map_option (\<lambda>xs. JList (map JObj xs)) (advancedSettings d)"
  "map_of (section_dict_items d) ''suggestedBlocks'' = map_option JList (suggestedBlocks d)"
  "map_of (section_dict_items d) ''commonUseCases'' = map_option JList (commonUseCases d)"
  unfolding section_dict_items_def
  by (simp_all add: map_of_optional_item map_of_optional_last del: map_of_append
        split: option.splits)

lemma normalize_each_json_typed:
  "normalize_each_json (map JObj xs) = map_sum id (map json_of_descriptor) (normalize_each xs)"
  by (induction xs) (auto simp: normalize_setting_json_def split: sum.splits)

lemma organize_key_typed:
  "organize_key (section_dict_items d) ''essentialSettings''
     = map_sum id (map json_of_descriptor) (normalize_each (get_list (essentialSettings d)))"
  "organize_key (section_dict_items d) ''recommendedSettings''
     = map_sum id (map json_of_descriptor) (normalize_each (get_list (recommendedSettings d)))"
  "organize_key (section_dict_items d) ''advancedSettings''
     = map_sum id (map json_of_descriptor) (normalize_each (get_list (advancedSettings d)))"
  using normalize_each_json_typed [of "[]"]
  by (simp_all add: organize_key_def dict_get_def raw_lookups py_iter_def get_list_def
        normalize_each_json_typed split: option.splits)

lemma organize_settings_json_typed:
  "organize_settings_json (section_dict_items d) =
     map_sum id (\<lambda>org. (map json_of_descriptor (essential org),
                         map json_of_descriptor (recommended org),
                         map json_of_descriptor (advanced org)))
       (organize_settings d)"
  by (simp add: organize_settings_json_def organize_settings_def organize_key_typed
        split: sum.splits)

lemma score_json_typed:
  "calculate_intelligence_score_json (section_dict_items d)
     = Inr (calculate_intelligence_score d)"
proof -
  have e: "py_truthy (dict_get (section_dict_items d) ''essentialSettings'' JNull)
             = truthy (essentialSettings d)"
    by (cases "essentialSettings d")
       (simp_all add: dict_get_def raw_lookups py_truthy_def truthy_def)
  have r: "py_truthy (dict_get (section_dict_items d) ''recommendedSettings'' JNull)
             = truthy (recommendedSettings d)"
    by (cases "recommendedSettings d")
       (simp_all add: dict_get_def raw_lookups py_truthy_def truthy_def)
  have b: "py_truthy (dict_get (section_dict_items d) ''suggestedBlocks'' JNull)
             = truthy (suggestedBlocks d)"
    by (cases "suggestedBlocks d")
       (simp_all add: dict_get_def raw_lookups py_truthy_def truthy_def)
  have u: "py_truthy (dict_get (section_dict_items d) ''commonUseCases'' JNull)
             = truthy (commonUseCases d)"
    by (cases "commonUseCases d")
       (simp_all add: dict_get_def raw_lookups py_truthy_def truthy_def)
  have a: "py_len (dict_get (section_dict_items d) ''advancedSettings'' (JList []))
             = Inr (int (length (get_list (advancedSettings d))))"
    by (cases "advancedSettings d")
       (simp_all add: dict_get_def raw_lookups py_len_def get_list_def)
  show ?thesis
    unfolding calculate_intelligence_score_json_def calculate_intelligence_score_def e r b u a
    by (simp add: Let_def)
qed

lemma suggested_blocks_json_typed:
  "dict_get (section_dict_items d) ''suggestedBlocks'' (JList [])
     = JList (get_list (suggestedBlocks d))"
  by (cases "suggestedBlocks d") (simp_all add: dict_get_def raw_lookups get_list_def)

lemma dict_set_optional_item:
  "k' \<noteq> k \<Longrightarrow>
   dict_set k' v (optional_item k f x @ rest) = optional_item k f x @ dict_set k' v rest"
  by (cases x) (simp_all add: optional_item_def)

lemma dict_set_optional_last:
  "k' \<noteq> k \<Longrightarrow> dict_set k' v (optional_item k f x) = optional_item k f x @ [(k', v)]"
  by (cases x) (simp_all add: optional_item_def)

lemma optional_item_simps:
  "optional_item k f None = []" "optional_item k f (Some y) = [(k, f y)]"
  by (simp_all add: optional_item_def)

lemma updated_items:
  assumes "plain_entry e"
  shows "dict_set ''optimization_tips'' (JList (map JStr tips))
          (dict_set ''intelligence_score'' (JInt sc)
          (dict_set ''suggested_blocks'' (JList bl)
          (dict_set ''advanced_settings'' (JList (map json_of_descriptor as))
          (dict_set ''suggested_settings'' (JList (map json_of_descriptor ss))
          (dict_set ''intelligent_settings'' (json_of_organized org)
             (section_dict_items e))))))
         = section_dict_items
             (e \<lparr> intelligent_settings := Some org, suggested_settings := Some ss,
                  advanced_settings := Some as, suggested_blocks := Some bl,
                  intelligence_score := Some sc, optimization_tips := Some tips \<rparr>)"
  using assms
  by (simp add: section_dict_items_def plain_entry_def optional_item_simps
        dict_set_optional_item dict_set_optional_last)

lemma analyze_json_refines:
  assumes "\<forall>entry \<in> snd ` set entries. plain_entry entry"
  shows "analyze_section_type_json (json_of_catalog entries) t
         = map_sum id json_of_section_dict (analyze_section_type (map_of entries) t)"
proof (cases "map_of entries t")
  case None
  then have "map_of (map (\<lambda>(k, entry). (k, json_of_section_dict entry)) entries) t = None"
    by (simp add: map_of_map)
  then show ?thesis
    using None
    by (simp add: analyze_section_type_json_def json_of_catalog_def py_in_def
          analyze_section_type_def dom_def generic_json)
next
  case (Some e)
  then have "(t, e) \<in> set entries" by (rule map_of_SomeD)
  then have plain: "plain_entry e" using assms by force
  have look: "map_of (map (\<lambda>(k, entry). (k, json_of_section_dict entry)) entries) t
      = Some (JObj (section_dict_items e))"
    using Some by (simp add: map_of_map json_of_section_dict_def)
  show ?thesis
  proof (cases "organize_settings e")
    case (Inl err)
    then show ?thesis
      using Some look
      by (simp add: analyze_section_type_json_def json_of_catalog_def py_in_def
            analyze_section_type_def dom_def get_intelligent_config_json_def py_getitem_def
            py_copy_def organize_settings_json_typed get_intelligent_config_def)
  next
    case (Inr org)
    then show ?thesis
      using Some look updated_items [OF plain, of "get_optimization_tips t"
          "calculate_intelligence_score e" "get_list (suggestedBlocks e)"
          "advanced org" "essential org @ recommended org" org]
      by (simp add: analyze_section_type_json_def json_of_catalog_def py_in_def
            analyze_section_type_def dom_def get_intelligent_config_json_def py_getitem_def
            py_copy_def organize_settings_json_typed get_intelligent_config_def
            score_json_typed json_of_section_dict_def json_of_organized_def
            suggested_blocks_json_typed)
  qed
qed

section \<open>Claims about the generator's result\<close>

text \<open>
  Claim C1 says that generation returns a bundle for every request and every analysis
  report. The code never does: each of the three dispatch tables names methods that the
  class does not define (the first is the gallery one), and building the table raises
  AttributeError before any lookup. So the three dispatching methods raise for every
  configuration, whatever its type, and \<^verbatim>\<open>generate_section\<close> raises for every request:
  the analyzer's exception if it has one, and otherwise the AttributeError of the
  template table.
\<close>

theorem generate_section_always_raises:
  "generate_template_content config = Inl (AttributeError ''_generate_gallery_template'')
   \<and> generate_css config = Inl (AttributeError ''_generate_gallery_css'')
   \<and> generate_js config = Inl (AttributeError ''_generate_gallery_js'')
   \<and> generate_from_config config = Inl (AttributeError ''_generate_gallery_template'')
   \<and> generate_section section_types section_name section_type description_arg use_advanced =
       (case analyze_section_type section_types section_type of
          Inl e \<Rightarrow> Inl e
        | Inr analysis \<Rightarrow> Inl (AttributeError ''_generate_gallery_template''))"
proof -
  have css: "generate_css config = Inl (AttributeError ''_generate_gallery_css'')"
    by (simp add: generate_css_def dispatch_def self_method_def generator_methods_def)
  have js: "generate_js config = Inl (AttributeError ''_generate_gallery_js'')"
    by (simp add: generate_js_def dispatch_def self_method_def generator_methods_def)
  have from_config: "generate_from_config c = Inl (AttributeError ''_generate_gallery_template'')"
    for c
    by (simp add: generate_from_config_def generate_liquid_def generate_template_content_raises
          Let_def)
  have "generate_section section_types section_name section_type description_arg use_advanced =
       (case analyze_section_type section_types section_type of
          Inl e \<Rightarrow> Inl e
        | Inr analysis \<Rightarrow> Inl (AttributeError ''_generate_gallery_template''))"
    by (simp add: generate_section_def from_config split: sum.splits)
  then show ?thesis
    using css js from_config generate_template_content_raises by simp
qed

section \<open>Claims about the analyzer\<close>

text \<open>
  Claim C2 says that the report of a type absent from the catalog has one essential,
  two recommended and one advanced organized setting. At the type \<^verbatim>\<open>widget\<close> with an
  empty catalog the code returns the generic dictionary, whose organized settings are
  three empty lists: the four settings are only in its raw lists, and the configuration
  built from the report has no settings, with or without the advanced flag. The rest of
  the claim holds there: no suggested blocks, score 25, one tip.
\<close>

theorem generic_config_leaves_organized_empty:
  "analyze_section_type Map.empty ''widget'' = Inr (get_generic_config ''widget'')
   \<and> intelligent_settings (get_generic_config ''widget'')
       = Some \<lparr> essential = [], recommended = [], advanced = [] \<rparr>
   \<and> map (\<lambda>s. (map_of s ''id'', map_of s ''type'', map_of s ''default''))
        (get_list (essentialSettings (get_generic_config ''widget'')))
       = [(Some (JStr ''heading''), Some (JStr ''text''), Some (JStr ''Widget Section''))]
   \<and> map (\<lambda>s. (map_of s ''id'', map_of s ''type''))
        (get_list (recommendedSettings (get_generic_config ''widget'')))
       = [(Some (JStr ''background_color''), Some (JStr ''color'')),
          (Some (JStr ''text_color''), Some (JStr ''color''))]
   \<and> map (\<lambda>s. (map_of s ''id'', map_of s ''type'', map_of s ''default''))
        (get_list (advancedSettings (get_generic_config ''widget'')))
       = [(Some (JStr ''animation''), Some (JStr ''select''), Some (JStr ''fadeIn''))]
   \<and> suggestedBlocks (get_generic_config ''widget'') = Some []
   \<and> intelligence_score (get_generic_config ''widget'') = Some 25
   \<and> optimization_tips (get_generic_config ''widget'')
       = Some [''Consider adding more specific settings for better customization'']
   \<and> cfg_settings
        (section_config_for (get_generic_config ''widget'') ''my-widget'' ''widget'' None True)
       = []
   \<and> cfg_settings
        (section_config_for (get_generic_config ''widget'') ''my-widget'' ''widget'' None False)
       = []"
  by (simp add: eval_defs get_generic_config_def section_config_for_def)

text \<open>
  Claim C3: for every type, in the catalog or not, the suggested settings of the report
  that analysis returns, read as \<^verbatim>\<open>generate_section\<close> reads them
  (\<^verbatim>\<open>analysis.get('suggested_settings', [])\<close>), are the report's organized essential
  settings followed by its organized recommended settings; for a type in the catalog
  the report holds that list under the key \<^verbatim>\<open>suggested_settings\<close>.
\<close>

theorem suggested_settings_concat:
  assumes "analyze_section_type cat t = Inr r"
  shows "\<exists>org. intelligent_settings r = Some org
           \<and> get_list (suggested_settings r) = essential org @ recommended org
           \<and> (t \<in> dom cat \<longrightarrow>
                suggested_settings r = Some (essential org @ recommended org))"
proof (cases "cat t")
  case None
  then have "r = get_generic_config t"
    using assms analyze_unknown by fastforce
  then show ?thesis using None by (simp add: get_generic_config_def dom_def get_list_def)
next
  case (Some entry)
  then show ?thesis
    using analyze_known [OF Some assms] by (auto simp: dom_def get_list_def)
qed

text \<open>
  Claim C3 at the example entry, for the known type \<^verbatim>\<open>hero\<close> (the ids of the
  suggested settings are those of the essential and the recommended setting) and for
  the unknown type \<^verbatim>\<open>widget\<close>.
\<close>

theorem suggested_settings_concat_witness:
  "(\<exists>r org. analyze_section_type [''hero'' \<mapsto> hero_entry] ''hero'' = Inr r
       \<and> intelligent_settings r = Some org
       \<and> get_list (suggested_settings r) = essential org @ recommended org
       \<and> suggested_settings r = Some (essential org @ recommended org)
       \<and> map s_id (get_list (suggested_settings r)) = [''heading_text'', ''overlay_color''])
   \<and> (\<exists>r org. analyze_section_type [''hero'' \<mapsto> hero_entry] ''widget'' = Inr r
       \<and> intelligent_settings r = Some org
       \<and> get_list (suggested_settings r) = essential org @ recommended org)"
proof -
  obtain r1 where h1: "analyze_section_type [''hero'' \<mapsto> hero_entry] ''hero'' = Inr r1"
    by (simp add: eval_defs hero_entry_def)
  obtain r2 where h2: "analyze_section_type [''hero'' \<mapsto> hero_entry] ''widget'' = Inr r2"
    by (simp add: analyze_section_type_def)
  from suggested_settings_concat [OF h1]
  obtain org1 where o1: "intelligent_settings r1 = Some org1"
    "get_list (suggested_settings r1) = essential org1 @ recommended org1"
    "suggested_settings r1 = Some (essential org1 @ recommended org1)"
    by auto
  from suggested_settings_concat [OF h2]
  obtain org2 where o2: "intelligent_settings r2 = Some org2"
    "get_list (suggested_settings r2) = essential org2 @ recommended org2"
    by auto
  have ids: "map s_id (get_list (suggested_settings r1)) = [''heading_text'', ''overlay_color'']"
    using h1 [symmetric] by (simp add: eval_defs hero_entry_def)
  show ?thesis
    using h1 h2 o1 o2 ids
    by (intro conjI exI [of _ r1] exI [of _ org1] exI [of _ r2] exI [of _ org2]) simp_all
qed

text \<open>
  Claim C4, as stated, fails: a raw specification in the essential list that has no
  \<^verbatim>\<open>category\<close> of its own is normalized into a descriptor of tier recommended, and so
  is one in the advanced list.
\<close>

theorem organize_settings_untagged_counterexample:
  "organize_settings hero_entry =
   Inr \<lparr> essential =
           [\<lparr> s_type = JStr ''text'', s_id = ''heading_text'', s_label = JStr ''Heading Text'',
              s_default = JStr ''Default text'', s_required = JBool False, s_info = JStr [],
              s_category = JStr ''recommended'', s_options = None, s_range = None,
              s_validation = None \<rparr>],
         recommended =
           [\<lparr> s_type = JStr ''color'', s_id = ''overlay_color'',
              s_label = JStr ''Overlay Color'',
              s_default = JStr ''#000000'', s_required = JBool False, s_info = JStr [],
              s_category = JStr ''recommended'', s_options = None, s_range = None,
              s_validation = None \<rparr>],
         advanced =
           [\<lparr> s_type = JStr ''checkbox'', s_id = ''parallax_effect'',
              s_label = JStr ''Parallax Effect'',
              s_default = JBool False, s_required = JBool False, s_info = JStr [],
              s_category = JStr ''recommended'', s_options = None, s_range = None,
              s_validation = None \<rparr>] \<rparr>"
  by (simp add: eval_defs hero_entry_def)

text \<open>
  Claim C4, amended: when the settings of a catalog entry are organized, its essential,
  recommended and advanced raw lists are normalized, in order, into the organized
  essential, recommended and advanced lists; the tier of each descriptor is the
  \<^verbatim>\<open>category\<close> of its raw specification when it has one and recommended when it has
  none, whichever list it came from.
\<close>

theorem organize_settings_tiers:
  assumes "organize_settings cfg = Inr org"
  shows "normalize_each (get_list (essentialSettings cfg)) = Inr (essential org)
       \<and> normalize_each (get_list (recommendedSettings cfg)) = Inr (recommended org)
       \<and> normalize_each (get_list (advancedSettings cfg)) = Inr (advanced org)
       \<and> map s_category (essential org) =
           map (\<lambda>s. dict_get s ''category'' (JStr ''recommended''))
             (get_list (essentialSettings cfg))
       \<and> map s_category (recommended org) =
           map (\<lambda>s. dict_get s ''category'' (JStr ''recommended''))
             (get_list (recommendedSettings cfg))
       \<and> map s_category (advanced org) =
           map (\<lambda>s. dict_get s ''category'' (JStr ''recommended''))
             (get_list (advancedSettings cfg))"
  using organize_settings_Inr [OF assms] normalize_each_category by blast

text \<open>The amended claim C4 at the entry whose raw settings name their tiers.\<close>

theorem organize_settings_tiers_witness:
  "\<exists>org. organize_settings tagged_entry = Inr org
     \<and> map s_category (essential org) = [JStr ''essential'']
     \<and> map s_category (recommended org) = [JStr ''recommended'']
     \<and> map s_category (advanced org) = [JStr ''advanced'']"
proof -
  obtain org where h: "organize_settings tagged_entry = Inr org"
    by (simp add: eval_defs tagged_entry_def)
  from organize_settings_tiers [OF h]
  have "map s_category (essential org) = [JStr ''essential'']
      \<and> map s_category (recommended org) = [JStr ''recommended'']
      \<and> map s_category (advanced org) = [JStr ''advanced'']"
    by (simp add: tagged_entry_def empty_dict_def get_list_def dict_get_def)
  with h show ?thesis by (intro exI [of _ org]) simp
qed

text \<open>
  Claim C5 says that analysis returns a report for every catalog, also when a raw
  specification omits \<^verbatim>\<open>id\<close>. The code reads \<^verbatim>\<open>setting['id']\<close> to build the default
  label even when the specification has a label, so a specification with a name and a
  label but no \<^verbatim>\<open>id\<close> makes the analysis raise KeyError.
\<close>

theorem analyze_raises_on_missing_id:
  "analyze_section_type
     [''hero'' \<mapsto> empty_dict \<lparr> essentialSettings :=
        Some [[(''name'', JStr ''heading''), (''label'', JStr ''Heading'')]] \<rparr>] ''hero''
   = Inl (KeyError ''id'')"
  by (simp add: eval_defs)

text \<open>
  Claim C6: when analysis returns a report, for a type in the catalog the score is the
  specified rule on the entry's five lists, and equally on the report's organized
  lists, its suggested blocks and its common use cases; for every type the score lies
  between 0 and 100; for a type absent from the catalog it is 25.
\<close>

theorem intelligence_score_rule:
  assumes "analyze_section_type cat t = Inr r"
  shows "(\<forall>entry. cat t = Some entry \<longrightarrow>
            intelligence_score r =
              Some (spec_score (get_list (essentialSettings entry))
                      (get_list (recommendedSettings entry))
                      (get_list (advancedSettings entry))
                      (get_list (suggestedBlocks entry))
                      (get_list (commonUseCases entry)))
            \<and> (\<exists>org. intelligent_settings r = Some org
                 \<and> intelligence_score r =
                     Some (spec_score (essential org) (recommended org) (advanced org)
                            (get_list (suggested_blocks r)) (get_list (commonUseCases r)))))
       \<and> (\<exists>s. intelligence_score r = Some s \<and> 0 \<le> s \<and> s \<le> 100)
       \<and> (cat t = None \<longrightarrow> intelligence_score r = Some 25)"
proof (cases "cat t")
  case None
  then have "r = get_generic_config t"
    using assms analyze_unknown by fastforce
  then show ?thesis using None by (simp add: get_generic_config_def)
next
  case (Some entry)
  then obtain org where org: "organize_settings entry = Inr org"
    and r: "r = entry \<lparr> intelligent_settings := Some org,
                 suggested_settings := Some (essential org @ recommended org),
                 advanced_settings := Some (advanced org),
                 suggested_blocks := Some (get_list (suggestedBlocks entry)),
                 intelligence_score := Some (calculate_intelligence_score entry),
                 optimization_tips := Some (get_optimization_tips t) \<rparr>"
    using assms analyze_known by blast
  have len: "length (essential org) = length (get_list (essentialSettings entry))"
       "length (recommended org) = length (get_list (recommendedSettings entry))"
       "length (advanced org) = length (get_list (advancedSettings entry))"
    using organize_settings_Inr [OF org] normalize_each_length by blast+
  have same: "spec_score (essential org) (recommended org) (advanced org)
                (get_list (suggestedBlocks entry)) (get_list (commonUseCases entry))
              = spec_score (get_list (essentialSettings entry))
                      (get_list (recommendedSettings entry))
                      (get_list (advancedSettings entry))
                      (get_list (suggestedBlocks entry))
                      (get_list (commonUseCases entry))"
  proof -
    have "(essential org = []) = (get_list (essentialSettings entry) = [])"
      using len(1) by (metis length_0_conv)
    moreover have "(recommended org = []) = (get_list (recommendedSettings entry) = [])"
      using len(2) by (metis length_0_conv)
    ultimately show ?thesis
      by (simp add: spec_score_def len(3))
  qed
  have score: "intelligence_score r =
      Some (spec_score (get_list (essentialSettings entry))
                      (get_list (recommendedSettings entry))
                      (get_list (advancedSettings entry))
                      (get_list (suggestedBlocks entry))
                      (get_list (commonUseCases entry)))"
    by (simp add: r score_eq_spec)
  have fields: "intelligent_settings r = Some org"
    "get_list (suggested_blocks r) = get_list (suggestedBlocks entry)"
    "commonUseCases r = commonUseCases entry"
    by (simp_all add: r get_list_def)
  have "\<exists>s. intelligence_score r = Some s \<and> 0 \<le> s \<and> s \<le> 100"
    unfolding score using spec_score_bounds by blast
  moreover have "intelligence_score r =
      Some (spec_score (essential org) (recommended org) (advanced org)
              (get_list (suggested_blocks r)) (get_list (commonUseCases r)))"
    unfolding score fields same ..
  ultimately show ?thesis
    using Some score fields(1) by auto
qed

text \<open>
  Claim C6 at the example entry (one essential, one recommended and one advanced
  setting, no blocks, one use case: 30 + 25 + 5 + 0 + 10) and at an unknown type.
\<close>

theorem intelligence_score_rule_witness:
  "(\<exists>r. analyze_section_type [''hero'' \<mapsto> hero_entry] ''hero'' = Inr r
       \<and> intelligence_score r = Some 70)
   \<and> (\<exists>r. analyze_section_type [''hero'' \<mapsto> hero_entry] ''widget'' = Inr r
       \<and> intelligence_score r = Some 25)"
proof -
  obtain r1 where h1: "analyze_section_type [''hero'' \<mapsto> hero_entry] ''hero'' = Inr r1"
    by (simp add: eval_defs hero_entry_def)
  obtain r2 where h2: "analyze_section_type [''hero'' \<mapsto> hero_entry] ''widget'' = Inr r2"
    by (simp add: analyze_section_type_def)
  from intelligence_score_rule [OF h1]
  have "intelligence_score r1 = Some 70"
    by (simp add: hero_entry_def empty_dict_def get_list_def spec_score_def)
  moreover from intelligence_score_rule [OF h2]
  have "intelligence_score r2 = Some 25"
    by simp
  ultimately show ?thesis
    using h1 h2 by blast
qed

section \<open>Claims about the schema\<close>

text \<open>
  Claim C7, as stated, fails in both halves. Without the advanced flag the schema has
  an advanced-tier descriptor when an essential raw specification names the category
  advanced; with the flag, and a non-empty organized advanced list, the schema has no
  advanced-tier descriptor when the advanced raw specifications name no category.
\<close>

theorem schema_advanced_tier_counterexample:
  "map_sum id (map s_category \<circ> schema_settings)
     (generate_section_schema
        [''hero'' \<mapsto> empty_dict \<lparr> essentialSettings :=
            Some [[(''id'', JStr ''heading_text''), (''category'', JStr ''advanced'')]] \<rparr>]
        ''banner'' ''hero'' None False)
   = Inr [JStr ''advanced'']
   \<and> map_sum id (map_option (map s_id) \<circ> advanced_settings)
       (analyze_section_type [''hero'' \<mapsto> hero_entry] ''hero'')
     = Inr (Some [''parallax_effect''])
   \<and> map_sum id (map s_category \<circ> schema_settings)
       (generate_section_schema [''hero'' \<mapsto> hero_entry] ''banner'' ''hero'' None True)
     = Inr [JStr ''recommended'', JStr ''recommended'', JStr ''recommended'']"
  by (simp add: eval_defs hero_entry_def generate_section_schema_def section_config_for_def
        generate_intelligent_schema_def Let_def)

text \<open>
  Claim C7, amended: the schema's settings list is the working set's descriptors of
  category essential, then those of category recommended, then those of category
  advanced, each by the descriptor's own category. Hence without the advanced flag the
  schema has no advanced-category descriptor provided no suggested setting of the
  report has that category, and with the flag it has one whenever the report's
  organized advanced list has a descriptor of that category.
\<close>

theorem schema_settings_by_category:
  "schema_settings (generate_intelligent_schema (section_config_for analysis n t d adv)) =
     filter (\<lambda>s. s_category s = JStr ''essential'')
       (cfg_settings (section_config_for analysis n t d adv))
     @ filter (\<lambda>s. s_category s = JStr ''recommended'')
       (cfg_settings (section_config_for analysis n t d adv))
     @ filter (\<lambda>s. s_category s = JStr ''advanced'')
       (cfg_settings (section_config_for analysis n t d adv))
   \<and> ((\<forall>s \<in> set (get_list (suggested_settings analysis)). s_category s \<noteq> JStr ''advanced'')
        \<longrightarrow> (\<forall>s \<in> set (schema_settings
                   (generate_intelligent_schema (section_config_for analysis n t d False))).
               s_category s \<noteq> JStr ''advanced''))
   \<and> (\<forall>i. intelligent_settings analysis = Some i
          \<and> (\<exists>s \<in> set (advanced i). s_category s = JStr ''advanced'')
        \<longrightarrow> (\<exists>s \<in> set (schema_settings
                   (generate_intelligent_schema (section_config_for analysis n t d True))).
               s_category s = JStr ''advanced''))"
proof (intro conjI allI impI)
  show "schema_settings (generate_intelligent_schema (section_config_for analysis n t d adv)) =
     filter (\<lambda>s. s_category s = JStr ''essential'')
       (cfg_settings (section_config_for analysis n t d adv))
     @ filter (\<lambda>s. s_category s = JStr ''recommended'')
       (cfg_settings (section_config_for analysis n t d adv))
     @ filter (\<lambda>s. s_category s = JStr ''advanced'')
       (cfg_settings (section_config_for analysis n t d adv))"
    by (rule schema_settings_eq)
next
  assume "\<forall>s \<in> set (get_list (suggested_settings analysis)). s_category s \<noteq> JStr ''advanced''"
  then show "\<forall>s \<in> set (schema_settings
                   (generate_intelligent_schema (section_config_for analysis n t d False))).
               s_category s \<noteq> JStr ''advanced''"
    by (auto simp: schema_settings_eq working_set_without_advanced)
next
  fix i
  assume "intelligent_settings analysis = Some i
          \<and> (\<exists>s \<in> set (advanced i). s_category s = JStr ''advanced'')"
  then show "\<exists>s \<in> set (schema_settings
                   (generate_intelligent_schema (section_config_for analysis n t d True))).
               s_category s = JStr ''advanced''"
    by (auto simp: schema_settings_eq working_set_with_advanced)
qed

text \<open>
  The amended claim C7 at the report of the entry whose raw settings name their tiers:
  its suggested settings are of category essential and recommended, its organized
  advanced list has a descriptor of category advanced.
\<close>

theorem schema_settings_by_category_witness:
  "\<exists>r i. analyze_section_type [''hero'' \<mapsto> tagged_entry] ''hero'' = Inr r
     \<and> intelligent_settings r = Some i
     \<and> map s_category (get_list (suggested_settings r))
         = [JStr ''essential'', JStr ''recommended'']
     \<and> map s_category (advanced i) = [JStr ''advanced'']
     \<and> JStr ''advanced'' \<notin> s_category ` set (schema_settings
           (generate_intelligent_schema (section_config_for r ''banner'' ''hero'' None False)))
     \<and> JStr ''advanced'' \<in> s_category ` set (schema_settings
           (generate_intelligent_schema (section_config_for r ''banner'' ''hero'' None True)))"
proof -
  obtain r where h: "analyze_section_type [''hero'' \<mapsto> tagged_entry] ''hero'' = Inr r"
    by (simp add: eval_defs tagged_entry_def)
  obtain org where org: "organize_settings tagged_entry = Inr org"
    and i: "intelligent_settings r = Some org"
    and sugg_eq: "suggested_settings r = Some (essential org @ recommended org)"
    using analyze_known [OF _ h, of tagged_entry] by auto
  have tiers: "map s_category (essential org) = [JStr ''essential'']"
    "map s_category (recommended org) = [JStr ''recommended'']"
    "map s_category (advanced org) = [JStr ''advanced'']"
    using organize_settings_category [OF org]
    by (simp_all add: tagged_entry_def empty_dict_def get_list_def dict_get_def)
  have sugg: "map s_category (get_list (suggested_settings r))
                 = [JStr ''essential'', JStr ''recommended'']"
    by (simp add: sugg_eq get_list_def tiers)
  note adv = tiers(3)
  have no_adv: "\<forall>s \<in> set (get_list (suggested_settings r)). s_category s \<noteq> JStr ''advanced''"
  proof
    fix s assume "s \<in> set (get_list (suggested_settings r))"
    then have "s_category s \<in> set (map s_category (get_list (suggested_settings r)))"
      by simp
    then show "s_category s \<noteq> JStr ''advanced''"
      unfolding sugg by auto
  qed
  have "JStr ''advanced'' \<in> set (map s_category (advanced org))"
    unfolding adv by simp
  then have some_adv: "\<exists>s \<in> set (advanced org). s_category s = JStr ''advanced''"
    by auto
  note inst = schema_settings_by_category [of r "''banner''" "''hero''" None True]
  from inst no_adv
  have part1: "\<forall>s \<in> set (schema_settings
           (generate_intelligent_schema (section_config_for r ''banner'' ''hero'' None False))).
         s_category s \<noteq> JStr ''advanced''"
    by (elim conjE) (rule mp)
  from inst i some_adv
  have part2: "\<exists>s \<in> set (schema_settings
           (generate_intelligent_schema (section_config_for r ''banner'' ''hero'' None True))).
         s_category s = JStr ''advanced''"
    by (elim conjE allE [of _ org]) (rule mp, assumption, intro conjI)
  from part2 obtain s where s: "s \<in> set (schema_settings
           (generate_intelligent_schema (section_config_for r ''banner'' ''hero'' None True)))"
    "s_category s = JStr ''advanced''"
    by (rule bexE)
  have in2: "JStr ''advanced'' \<in> s_category ` set (schema_settings
           (generate_intelligent_schema (section_config_for r ''banner'' ''hero'' None True)))"
    using imageI [OF s(1), of s_category] s(2) by simp
  have in1: "JStr ''advanced'' \<notin> s_category ` set (schema_settings
           (generate_intelligent_schema (section_config_for r ''banner'' ''hero'' None False)))"
  proof
    assume "JStr ''advanced'' \<in> s_category ` set (schema_settings
           (generate_intelligent_schema (section_config_for r ''banner'' ''hero'' None False)))"
    then obtain x where "x \<in> set (schema_settings
           (generate_intelligent_schema (section_config_for r ''banner'' ''hero'' None False)))"
      "JStr ''advanced'' = s_category x"
      by (rule imageE)
    with part1 show False by (auto dest: bspec)
  qed
  note in1 in2
  with h i sugg adv show ?thesis
    by (intro exI [of _ r] exI [of _ org]) simp
qed

text \<open>
  Claim C8: the schema has one preset, whose settings are the dictionary built by
  \<^verbatim>\<open>_get_preset_defaults\<close> from the working set. Every entry of that dictionary is
  the non-null default of a setting with that id; its keys are exactly the ids of the
  settings with a non-null default; and when the ids of the working set are distinct
  (the invariant of the data model), every setting with a non-null default is mapped
  to that default.
\<close>

theorem preset_defaults_exact:
  "schema_presets (generate_intelligent_schema config) =
     [\<lparr> preset_name = cfg_name config, preset_category = ''Custom Sections'',
        preset_settings = get_preset_defaults (cfg_settings config) \<rparr>]
   \<and> (\<forall>k v. get_preset_defaults (cfg_settings config) k = Some v \<longrightarrow>
         (\<exists>s \<in> set (cfg_settings config). s_id s = k \<and> s_default s = v \<and> v \<noteq> JNull))
   \<and> dom (get_preset_defaults (cfg_settings config)) =
       {s_id s |s. s \<in> set (cfg_settings config) \<and> s_default s \<noteq> JNull}
   \<and> (distinct (map s_id (cfg_settings config)) \<longrightarrow>
        (\<forall>s \<in> set (cfg_settings config). s_default s \<noteq> JNull \<longrightarrow>
           get_preset_defaults (cfg_settings config) (s_id s) = Some (s_default s)))"
proof -
  have "\<forall>k v. get_preset_defaults (cfg_settings config) k = Some v \<longrightarrow>
         (\<exists>s \<in> set (cfg_settings config). s_id s = k \<and> s_default s = v \<and> v \<noteq> JNull)"
    using preset_defaults_loop_source [of Map.empty "cfg_settings config"]
    by (simp add: get_preset_defaults_def)
  then show ?thesis
    by (simp add: generate_intelligent_schema_def Let_def get_preset_defaults_def
          preset_defaults_loop_dom preset_defaults_loop_value)
qed

text \<open>
  Claim C8 at a working set of an image picker without a default and a color with the
  default \<^verbatim>\<open>#ffffff\<close>: the preset has the color's entry and none for the image.
\<close>

theorem preset_defaults_exact_witness:
  "distinct (map s_id [image_setting, color_setting])
   \<and> get_preset_defaults [image_setting, color_setting] ''background_image'' = None
   \<and> get_preset_defaults [image_setting, color_setting] ''background_color''
       = Some (JStr ''#ffffff'')"
proof -
  let ?config = "\<lparr> cfg_name = ''banner'', cfg_type = ''hero'', cfg_description = [],
                   cfg_settings = [image_setting, color_setting], cfg_blocks = [],
                   cfg_presets = [], cfg_intelligence_config = empty_dict \<rparr>"
  have fields: "s_id image_setting = ''background_image''" "s_default image_setting = JNull"
    "s_id color_setting = ''background_color''" "s_default color_setting = JStr ''#ffffff''"
    by (simp_all add: image_setting_def color_setting_def)
  have d: "distinct (map s_id [image_setting, color_setting])"
    by (simp add: fields)
  note inst = preset_defaults_exact [of ?config]
  from inst have keys: "dom (get_preset_defaults [image_setting, color_setting]) =
       {s_id s |s. s \<in> set [image_setting, color_setting] \<and> s_default s \<noteq> JNull}"
    by simp
  have "''background_image'' \<notin> dom (get_preset_defaults [image_setting, color_setting])"
    unfolding keys by (auto simp: fields)
  then have image: "get_preset_defaults [image_setting, color_setting] ''background_image''
      = None"
    by (simp add: domIff)
  from inst d have "get_preset_defaults [image_setting, color_setting] (s_id color_setting)
      = Some (s_default color_setting)"
    by (simp add: fields)
  then have color: "get_preset_defaults [image_setting, color_setting] ''background_color''
      = Some (JStr ''#ffffff'')"
    by (simp add: fields)
  from d image color show ?thesis by simp
qed

section \<open>Claims about loading and repeated analysis\<close>

text \<open>
  Claim C9, as stated, fails for content that is malformed in another way than invalid
  JSON. A file whose bytes are not UTF-8 raises UnicodeDecodeError out of the loader; a
  document that is valid JSON but a list makes the analyzer's constructor raise
  AttributeError; and with \<^verbatim>\<open>null\<close> as the value of \<^verbatim>\<open>sectionTypes\<close> every analysis
  raises TypeError instead of taking the generic path.
\<close>

theorem load_raises_on_other_malformed_content:
  "load_intelligence_config tiny_json_load File_not_utf8 = Inl UnicodeDecodeError
   \<and> analyzer_init tiny_json_load File_not_utf8 = Inl UnicodeDecodeError
   \<and> analyzer_init tiny_json_load (File_text ''[]'') = Inl (AttributeError ''get'')
   \<and> analyze_section_type_json JNull ''hero'' = Inl (TypeError ''argument is not iterable'')"
  by (simp add: load_intelligence_config_def analyzer_init_def tiny_json_load_def
        analyze_section_type_json_def py_in_def)

text \<open>
  Claim C9, amended: when the catalog file does not exist, or its text is rejected by
  the JSON parser, loading returns the empty configuration instead of raising, the
  analyzer starts with an empty \<^verbatim>\<open>sectionTypes\<close> mapping, and every analysis then
  takes the generic path: it returns the generic dictionary, which is the report of the
  analyzer on the empty catalog.
\<close>

theorem load_degrades_to_generic:
  assumes "file = File_missing
           \<or> (\<exists>text. file = File_text text \<and> json_load text = Inl JSONDecodeError)"
  shows "load_intelligence_config json_load file = Inr basic_config
       \<and> analyzer_init json_load file = Inr (JObj [])
       \<and> (\<forall>section_type.
            analyze_section_type_json (JObj []) section_type
              = Inr (get_generic_config_json section_type)
            \<and> analyze_section_type_json (JObj []) section_type
              = map_sum id json_of_section_dict
                  (analyze_section_type Map.empty section_type)
            \<and> analyze_section_type Map.empty section_type
              = Inr (get_generic_config section_type))"
proof -
  have load: "load_intelligence_config json_load file = Inr basic_config"
    using assms by (auto simp: load_intelligence_config_def)
  then have init: "analyzer_init json_load file = Inr (JObj [])"
    by (simp add: analyzer_init_def basic_config_def dict_get_def)
  have generic: "analyze_section_type_json (JObj []) section_type
              = Inr (get_generic_config_json section_type)" for section_type
    by (simp add: analyze_section_type_json_def py_in_def)
  have typed: "analyze_section_type Map.empty section_type
              = Inr (get_generic_config section_type)" for section_type
    by (simp add: analyze_unknown)
  show ?thesis
    using load init generic typed by (simp add: generic_json)
qed

text \<open>
  The amended claim C9 for a missing file and for a file whose text the parser
  rejects; the type \<^verbatim>\<open>hero\<close> then gets the generic report.
\<close>

theorem load_degrades_to_generic_witness:
  "analyzer_init tiny_json_load File_missing = Inr (JObj [])
   \<and> tiny_json_load ''{ sectionTypes'' = Inl JSONDecodeError
   \<and> analyzer_init tiny_json_load (File_text ''{ sectionTypes'') = Inr (JObj [])
   \<and> analyze_section_type_json (JObj []) ''hero'' = Inr (get_generic_config_json ''hero'')"
proof -
  have rejected: "tiny_json_load ''{ sectionTypes'' = Inl JSONDecodeError"
    by (simp add: tiny_json_load_def)
  have missing: "File_missing = File_missing
      \<or> (\<exists>text. File_missing = File_text text \<and> tiny_json_load text = Inl JSONDecodeError)"
    by simp
  have malformed: "File_text ''{ sectionTypes'' = File_missing
      \<or> (\<exists>text. File_text ''{ sectionTypes'' = File_text text
            \<and> tiny_json_load text = Inl JSONDecodeError)"
    using rejected by simp
  from load_degrades_to_generic [OF missing]
  have a: "analyzer_init tiny_json_load File_missing = Inr (JObj [])"
    by (rule conjunct1 [OF conjunct2])
  from load_degrades_to_generic [OF malformed]
  have b: "analyzer_init tiny_json_load (File_text ''{ sectionTypes'') = Inr (JObj [])"
    and c: "\<forall>section_type.
            analyze_section_type_json (JObj []) section_type
              = Inr (get_generic_config_json section_type)
            \<and> analyze_section_type_json (JObj []) section_type
              = map_sum id json_of_section_dict
                  (analyze_section_type Map.empty section_type)
            \<and> analyze_section_type Map.empty section_type
              = Inr (get_generic_config section_type)"
    by (rule conjunct1 [OF conjunct2], rule conjunct2 [OF conjunct2])
  from spec [OF c, of "''hero''"]
  have "analyze_section_type_json (JObj []) ''hero''
      = Inr (get_generic_config_json ''hero'')"
    by (rule conjunct1)
  with a b rejected show ?thesis by simp
qed

text \<open>
  Claim C10, on the store of dictionaries: when the catalog's references point into the
  store, two successive analyses of the same type either raise the same exception or
  return two different dictionaries with equal contents; the second call leaves the
  first report as it was; and after each call the catalog read through its references,
  and every dictionary that existed before, is unchanged.
\<close>

theorem analyze_twice_same_report:
  assumes wf: "\<forall>r \<in> ran section_types. r < length objects"
    and first: "analyze_section_type_st section_types objects t = (res1, objects1)"
    and second: "analyze_section_type_st section_types objects1 t = (res2, objects2)"
  shows "returned res1 objects2 = returned res2 objects2
       \<and> returned res1 objects2 = returned res1 objects1
       \<and> (\<forall>r1 r2. res1 = Inr r1 \<and> res2 = Inr r2 \<longrightarrow> r1 \<noteq> r2)
       \<and> catalog_of section_types objects1 = catalog_of section_types objects
       \<and> catalog_of section_types objects2 = catalog_of section_types objects
       \<and> take (length objects) objects2 = objects"
proof -
  obtain d1 where o1: "objects1 = objects @ [d1]"
    and r1: "\<forall>r. res1 = Inr r \<longrightarrow> r = length objects"
    using analyze_st_extends [OF first] by blast
  obtain d2 where o2: "objects2 = objects1 @ [d2]"
    and r2: "\<forall>r. res2 = Inr r \<longrightarrow> r = length objects1"
    using analyze_st_extends [OF second] by blast
  have cat1: "catalog_of section_types objects1 = catalog_of section_types objects"
    unfolding o1 using wf by (rule catalog_of_append)
  have cat2: "catalog_of section_types objects2 = catalog_of section_types objects"
    unfolding o2 o1 append_assoc using wf by (rule catalog_of_append)
  have keep: "returned res1 objects2 = returned res1 objects1"
    using r1 by (cases res1) (simp_all add: returned_def o1 o2 nth_append)
  have "returned res1 objects1 = returned res2 objects2"
    using analyze_st_refines [OF first] analyze_st_refines [OF second] cat1 by simp
  moreover have "\<forall>r1 r2. res1 = Inr r1 \<and> res2 = Inr r2 \<longrightarrow> r1 \<noteq> r2"
    using r1 r2 by (auto simp: o1)
  moreover have "take (length objects) objects2 = objects"
    by (simp add: o1 o2)
  ultimately show ?thesis
    using keep cat1 cat2 by simp
qed

text \<open>
  Claim C10 on a store that holds the example entry at reference 0: both calls return,
  the two reports are the dictionaries at references 1 and 2, and the entry is still at
  reference 0.
\<close>

theorem analyze_twice_same_report_witness:
  "\<exists>objects1 objects2.
     analyze_section_type_st [''hero'' \<mapsto> 0] [hero_entry] ''hero'' = (Inr 1, objects1)
     \<and> analyze_section_type_st [''hero'' \<mapsto> 0] objects1 ''hero'' = (Inr 2, objects2)
     \<and> objects2 ! 1 = objects2 ! 2
     \<and> objects2 ! 1 = objects1 ! 1
     \<and> objects2 ! 0 = hero_entry
     \<and> length objects2 = 3"
proof -
  have wf: "\<forall>r \<in> ran [''hero'' \<mapsto> (0::nat)]. r < length [hero_entry]"
    by simp
  obtain res1 objects1
    where first: "analyze_section_type_st [''hero'' \<mapsto> 0] [hero_entry] ''hero''
                    = (res1, objects1)"
    by (cases "analyze_section_type_st [''hero'' \<mapsto> 0] [hero_entry] ''hero''") blast
  obtain res2 objects2
    where second: "analyze_section_type_st [''hero'' \<mapsto> 0] objects1 ''hero''
                    = (res2, objects2)"
    by (cases "analyze_section_type_st [''hero'' \<mapsto> 0] objects1 ''hero''") blast
  note twice = analyze_twice_same_report [OF wf first second]
  have ok: "\<exists>r. analyze_section_type (catalog_of [''hero'' \<mapsto> 0] [hero_entry]) ''hero'' = Inr r"
    by (simp add: catalog_of_def eval_defs hero_entry_def)
  obtain d1 where o1: "objects1 = [hero_entry] @ [d1]"
    and r1: "\<forall>r. res1 = Inr r \<longrightarrow> r = length [hero_entry]"
    using analyze_st_extends [OF first] by blast
  obtain d2 where o2: "objects2 = objects1 @ [d2]"
    and r2: "\<forall>r. res2 = Inr r \<longrightarrow> r = length objects1"
    using analyze_st_extends [OF second] by blast
  have res1: "res1 = Inr 1"
    using analyze_st_refines [OF first] ok r1 by (cases res1) (auto simp: returned_def)
  from twice have same: "returned res1 objects2 = returned res2 objects2"
    and kept: "returned res1 objects2 = returned res1 objects1"
    by (rule conjunct1, rule conjunct1 [OF conjunct2])
  then have "returned res2 objects2 = returned res1 objects1"
    by simp
  then have res2: "res2 = Inr 2"
    using res1 r2 by (cases res2) (auto simp: returned_def o1)
  have "objects2 ! 1 = objects2 ! 2"
    using same by (simp add: res1 res2 returned_def)
  moreover have "objects2 ! 1 = objects1 ! 1"
    using kept by (simp add: res1 returned_def)
  moreover have "objects2 ! 0 = hero_entry" and "length objects2 = 3"
    by (simp_all add: o1 o2)
  ultimately show ?thesis
    using first second res1 res2 by blast
qed

end
